theory Spec2Isabelle
  imports Complex_Main
begin

section \<open>Python strings\<close>

text \<open>
  A Python \<^verbatim>\<open>str\<close> is a sequence of Unicode code points; it is modelled as the list of
  their ordinals, so that \<open>length\<close> and \<open>take\<close> count what Python's \<^verbatim>\<open>len\<close> and
  slicing count. Strings are taken to be well-formed text (no lone surrogates), so that
  encoding them as UTF-8 never fails.
\<close>

type_synonym pystr = "nat list"

definition py :: "string \<Rightarrow> pystr" where
  "py s = map of_char s"

section \<open>Exceptions and JSON values\<close>

text \<open>
  What \<^verbatim>\<open>client.get\<close> of \<^verbatim>\<open>httpx\<close> can raise. \<^verbatim>\<open>TimeoutException\<close>, the other transport
  errors and \<^verbatim>\<open>DecodingError\<close> derive from \<^verbatim>\<open>RequestError\<close>, which derives from
  \<^verbatim>\<open>HTTPError\<close>; \<^verbatim>\<open>InvalidURL\<close> does not.
\<close>

datatype httpx_exn =
    TimeoutException
  | TransportError
  | DecodingError
  | InvalidURL

text \<open>
  The exceptions that the modelled code raises or lets through. \<^verbatim>\<open>HTTPStatusError\<close>, raised
  by \<^verbatim>\<open>raise_for_status\<close>, derives from \<^verbatim>\<open>HTTPError\<close> as well.
\<close>

datatype exn =
    AttributeError
  | KeyError
  | TypeError
  | ValueError
  | RateLimitError
  | HTTPException nat pystr
  | HTTPStatusError nat
  | Httpx httpx_exn

fun is_HTTPError :: "exn \<Rightarrow> bool" where
  "is_HTTPError (HTTPStatusError c) = True"
| "is_HTTPError (Httpx e) = (e \<noteq> InvalidURL)"
| "is_HTTPError e = False"

fun is_TimeoutException :: "exn \<Rightarrow> bool" where
  "is_TimeoutException (Httpx e) = (e = TimeoutException)"
| "is_TimeoutException e = False"

text \<open>
  The values that \<^verbatim>\<open>json.load\<close> produces and \<^verbatim>\<open>json.dump\<close> accepts. A \<^verbatim>\<open>dict\<close> is the
  list of its items in insertion order; a \<^verbatim>\<open>float\<close> is idealised as a rational.
\<close>

datatype json =
    JNull
  | JBool bool
  | JInt int
  | JFloat rat
  | JStr pystr
  | JArr "json list"
  | JObj "(pystr \<times> json) list"

type_synonym pydict = "(pystr \<times> json) list"

text \<open>\<^verbatim>\<open>d.get(k)\<close>, \<^verbatim>\<open>d.get(k, default)\<close> and \<^verbatim>\<open>d[k]\<close>.\<close>

definition dict_get :: "pydict \<Rightarrow> pystr \<Rightarrow> json" where
  "dict_get d k = (case map_of d k of None \<Rightarrow> JNull | Some v \<Rightarrow> v)"

definition dict_get_default :: "pydict \<Rightarrow> pystr \<Rightarrow> json \<Rightarrow> json" where
  "dict_get_default d k v0 = (case map_of d k of None \<Rightarrow> v0 | Some v \<Rightarrow> v)"

definition dict_item :: "pydict \<Rightarrow> pystr \<Rightarrow> exn + json" where
  "dict_item d k = (case map_of d k of None \<Rightarrow> Inl KeyError | Some v \<Rightarrow> Inr v)"

text \<open>Truth value of a Python object, and \<^verbatim>\<open>a or b\<close>.\<close>

fun truthy :: "json \<Rightarrow> bool" where
  "truthy JNull = False"
| "truthy (JBool b) = b"
| "truthy (JInt n) = (n \<noteq> 0)"
| "truthy (JFloat r) = (r \<noteq> 0)"
| "truthy (JStr s) = (s \<noteq> [])"
| "truthy (JArr xs) = (xs \<noteq> [])"
| "truthy (JObj d) = (d \<noteq> [])"

definition py_or :: "json \<Rightarrow> json \<Rightarrow> json" where
  "py_or a b = (if truthy a then a else b)"

section \<open>The Python runtime\<close>

text \<open>
  The character classes of Python's \<^verbatim>\<open>str.split\<close>, \<^verbatim>\<open>str.strip\<close> and of the \<^verbatim>\<open>re\<close> module
  (\<^verbatim>\<open>\s\<close>, \<^verbatim>\<open>\d\<close>, \<^verbatim>\<open>\w\<close> on \<^verbatim>\<open>str\<close> patterns) come from the Unicode database of the
  Python runtime. Below 128 they are written out; from 128 on they are a parameter
  (\<open>uspace\<close>, \<open>udecimal\<close>, \<open>ualnum\<close>). The other fields are the builtins and library
  functions that the code calls and that are not part of the repository:
  \<^verbatim>\<open>str.lower\<close>, \<^verbatim>\<open>int(s)\<close> and \<^verbatim>\<open>float(s)\<close> on a string (\<open>None\<close> for \<^verbatim>\<open>ValueError\<close>),
  \<^verbatim>\<open>str(v)\<close> on a value that is not a string, the hexadecimal digests
  \<^verbatim>\<open>hashlib.sha256(s.encode("utf-8")).hexdigest()\<close> and
  \<^verbatim>\<open>hashlib.blake2b(s.encode(), digest_size=12).hexdigest()\<close>, and from \<^verbatim>\<open>urllib.parse\<close>
  whether the query of a URL has a \<^verbatim>\<open>printable\<close> parameter and the URL with
  \<^verbatim>\<open>printable=yes\<close> added to its query, and whether \<^verbatim>\<open>raise_for_status\<close> of \<^verbatim>\<open>httpx\<close>
  raises for a status that is neither 2xx nor 4xx nor 5xx, which depends on its version.
\<close>

record pyrt =
  uspace :: "nat \<Rightarrow> bool"
  udecimal :: "nat \<Rightarrow> bool"
  ualnum :: "nat \<Rightarrow> bool"
  ulower :: "pystr \<Rightarrow> pystr"
  int_of_str :: "pystr \<Rightarrow> int option"
  float_of_str :: "pystr \<Rightarrow> rat option"
  str_of :: "json \<Rightarrow> pystr"
  sha256_hex :: "pystr \<Rightarrow> pystr"
  blake2b_hex :: "pystr \<Rightarrow> pystr"
  has_printable :: "pystr \<Rightarrow> bool"
  with_printable :: "pystr \<Rightarrow> pystr"
  status_raises :: "nat \<Rightarrow> bool"

definition isspace :: "pyrt \<Rightarrow> nat \<Rightarrow> bool" where
  "isspace U c = (if c < 128 then (9 \<le> c \<and> c \<le> 13) \<or> (28 \<le> c \<and> c \<le> 32) else uspace U c)"

definition isdecimal :: "pyrt \<Rightarrow> nat \<Rightarrow> bool" where
  "isdecimal U c = (if c < 128 then 48 \<le> c \<and> c \<le> 57 else udecimal U c)"

definition isword :: "pyrt \<Rightarrow> nat \<Rightarrow> bool" where
  "isword U c =
     (if c < 128 then (48 \<le> c \<and> c \<le> 57) \<or> (65 \<le> c \<and> c \<le> 90) \<or> (97 \<le> c \<and> c \<le> 122) \<or> c = 95
      else ualnum U c)"

text \<open>\<^verbatim>\<open>sep.join(xs)\<close>.\<close>

fun str_join :: "pystr \<Rightarrow> pystr list \<Rightarrow> pystr" where
  "str_join sep [] = []"
| "str_join sep [x] = x"
| "str_join sep (x # y # ys) = x @ sep @ str_join sep (y # ys)"

text \<open>
  The maximal non-empty runs of characters that are not separators, in order: with the
  white space as separators this is \<^verbatim>\<open>s.split()\<close>, with the non-word characters it is
  \<^verbatim>\<open>re.findall(r'\w+', s)\<close>. \<open>cur\<close> is the run being read.
\<close>

fun runs :: "(nat \<Rightarrow> bool) \<Rightarrow> pystr \<Rightarrow> pystr \<Rightarrow> pystr list" where
  "runs is_sep cur [] = (if cur = [] then [] else [cur])"
| "runs is_sep cur (c # cs) =
     (if is_sep c then (if cur = [] then runs is_sep [] cs else cur # runs is_sep [] cs)
      else runs is_sep (cur @ [c]) cs)"

definition str_split :: "pyrt \<Rightarrow> pystr \<Rightarrow> pystr list" where
  "str_split U s = runs (isspace U) [] s"

definition str_strip :: "pyrt \<Rightarrow> pystr \<Rightarrow> pystr" where
  "str_strip U s = rev (dropWhile (isspace U) (rev (dropWhile (isspace U) s)))"

text \<open>
  \<^verbatim>\<open>s.replace(" " + p, p)\<close> for a single character \<open>p\<close> other than the space: the
  occurrences of the two-character pattern are replaced from left to right.
\<close>

fun replace_sp :: "nat \<Rightarrow> pystr \<Rightarrow> pystr" where
  "replace_sp p (a # b # cs) =
     (if a = 32 \<and> b = p then p # replace_sp p cs else a # replace_sp p (b # cs))"
| "replace_sp p cs = cs"

text \<open>\<^verbatim>\<open>sub in s\<close> on strings, and \<^verbatim>\<open>s.count("<p")\<close>.\<close>

fun str_contains :: "pystr \<Rightarrow> pystr \<Rightarrow> bool" where
  "str_contains sub [] = (sub = [])"
| "str_contains sub (c # cs) = (take (length sub) (c # cs) = sub \<or> str_contains sub cs)"

fun count_p :: "pystr \<Rightarrow> nat" where
  "count_p (a # b # cs) = (if a = 60 \<and> b = 112 then Suc (count_p cs) else count_p (b # cs))"
| "count_p cs = 0"

text \<open>
  \<^verbatim>\<open>int(v)\<close>, \<^verbatim>\<open>float(v)\<close> and \<^verbatim>\<open>str(v)\<close> on a value read from JSON. \<^verbatim>\<open>int\<close> of a
  \<^verbatim>\<open>float\<close> truncates towards zero.
\<close>

fun py_int :: "pyrt \<Rightarrow> json \<Rightarrow> exn + int" where
  "py_int U (JInt n) = Inr n"
| "py_int U (JBool b) = Inr (if b then 1 else 0)"
| "py_int U (JFloat r) = Inr (if 0 \<le> r then \<lfloor>r\<rfloor> else \<lceil>r\<rceil>)"
| "py_int U (JStr s) = (case int_of_str U s of None \<Rightarrow> Inl ValueError | Some n \<Rightarrow> Inr n)"
| "py_int U v = Inl TypeError"

fun py_float :: "pyrt \<Rightarrow> json \<Rightarrow> exn + rat" where
  "py_float U (JInt n) = Inr (of_int n)"
| "py_float U (JBool b) = Inr (if b then 1 else 0)"
| "py_float U (JFloat r) = Inr r"
| "py_float U (JStr s) = (case float_of_str U s of None \<Rightarrow> Inl ValueError | Some r \<Rightarrow> Inr r)"
| "py_float U v = Inl TypeError"

fun py_str :: "pyrt \<Rightarrow> json \<Rightarrow> pystr" where
  "py_str U (JStr s) = s"
| "py_str U v = str_of U v"

section \<open>Text utilities (app/utils.py)\<close>

definition normalize_text :: "pyrt \<Rightarrow> pystr \<Rightarrow> pystr" where
  "normalize_text U text = (if text = [] then [] else str_join [32] (str_split U text))"

definition word_count :: "pyrt \<Rightarrow> pystr \<Rightarrow> nat" where
  "word_count U text =
     (if text = [] then 0 else length (runs (\<lambda>c. \<not> isword U c) [] text))"

text \<open>
  One match of \<^verbatim>\<open>_CITE_RE = \s*\[\d+\]\s*\<close> at the start of \<open>s\<close>; the result is what
  follows the match. Neither bracket is white space or a digit, so the greedy
  \<^verbatim>\<open>\s*\<close> and \<^verbatim>\<open>\d+\<close> never have to give characters back.
\<close>

definition match_cite :: "pyrt \<Rightarrow> pystr \<Rightarrow> pystr option" where
  "match_cite U s =
     (case dropWhile (isspace U) s of
        [] \<Rightarrow> None
      | b # s2 \<Rightarrow>
          if b = 91 \<and> takeWhile (isdecimal U) s2 \<noteq> []
          then (case dropWhile (isdecimal U) s2 of
                  [] \<Rightarrow> None
                | e # s4 \<Rightarrow> if e = 93 then Some (dropWhile (isspace U) s4) else None)
          else None)"

text \<open>\<^verbatim>\<open>_CITE_RE.sub(" ", s)\<close>: the leftmost matches, each replaced by one space.\<close>

function cite_sub :: "pyrt \<Rightarrow> pystr \<Rightarrow> pystr" where
  "cite_sub U [] = []"
| "cite_sub U (c # cs) =
     (case match_cite U (c # cs) of
        Some r \<Rightarrow> 32 # cite_sub U r
      | None \<Rightarrow> c # cite_sub U cs)"
  by pat_completeness auto
termination
proof (relation "measure (\<lambda>(U, s). length s)")
  show "wf (measure (\<lambda>(U, s). length s))" by simp
next
  fix U :: pyrt and c :: nat and cs r :: pystr
  assume m: "match_cite U (c # cs) = Some r"
  then obtain b s2 where 1: "dropWhile (isspace U) (c # cs) = b # s2"
    by (auto simp: match_cite_def split: list.splits)
  with m obtain e s4 where 2: "dropWhile (isdecimal U) s2 = e # s4"
    and 3: "r = dropWhile (isspace U) s4"
    by (auto simp: match_cite_def split: list.splits if_splits)
  have "length r \<le> length s4" using 3 by (simp add: length_dropWhile_le)
  also have "\<dots> < length (dropWhile (isdecimal U) s2)" using 2 by simp
  also have "\<dots> \<le> length s2" by (simp add: length_dropWhile_le)
  also have "\<dots> < length (dropWhile (isspace U) (c # cs))" using 1 by simp
  also have "\<dots> \<le> length (c # cs)" by (rule length_dropWhile_le)
  finally show "((U, r), (U, c # cs)) \<in> measure (\<lambda>(U, s). length s)" by simp
next
  fix U :: pyrt and c :: nat and cs :: pystr
  show "((U, cs), (U, c # cs)) \<in> measure (\<lambda>(U, s). length s)" by simp
qed

text \<open>\<^verbatim>\<open>_SPACE_RE.sub(" ", s)\<close> with \<^verbatim>\<open>_SPACE_RE = \s+\<close>: each maximal run becomes one space.\<close>

function space_sub :: "pyrt \<Rightarrow> pystr \<Rightarrow> pystr" where
  "space_sub U [] = []"
| "space_sub U (c # cs) =
     (if isspace U c then 32 # space_sub U (dropWhile (isspace U) cs)
      else c # space_sub U cs)"
  by pat_completeness auto
termination
  by (relation "measure (\<lambda>(U, s). length s)")
     (auto simp: length_dropWhile_le less_Suc_eq_le)

definition clean_citations_and_spaces :: "pyrt \<Rightarrow> pystr \<Rightarrow> pystr" where
  "clean_citations_and_spaces U s =
     (if s = [] then s
      else str_strip U (space_sub U
             (replace_sp 58 (replace_sp 59 (replace_sp 46 (replace_sp 44 (cite_sub U s)))))))"

text \<open>The cleaning step of \<^verbatim>\<open>core_parse\<close>: \<^verbatim>\<open>clean_citations_and_spaces(normalize_text(s))\<close>.\<close>

definition clean_text :: "pyrt \<Rightarrow> pystr \<Rightarrow> pystr" where
  "clean_text U s = clean_citations_and_spaces U (normalize_text U s)"

section \<open>The file cache (app/cache.py)\<close>

text \<open>
  The cache directory: the directories that exist and the files by path. A file is either
  a JSON document or something \<^verbatim>\<open>json.load\<close> fails on. Writing a value with \<^verbatim>\<open>json.dump\<close>
  and reading it back with \<^verbatim>\<open>json.load\<close> gives the value again. Failures of the operating
  system (a directory that cannot be created, a full disk) are outside the model.
\<close>

datatype cache_file = Unreadable | Doc json

record filesys =
  dirs :: "pystr set"
  files :: "pystr \<rightharpoonup> cache_file"

record cache_entry =
  etag :: pystr
  fetched_at :: rat
  ttl :: int
  payload :: json

definition hash_key :: "pyrt \<Rightarrow> pystr \<Rightarrow> pystr" where
  "hash_key U s = sha256_hex U s"

text \<open>\<^verbatim>\<open>os.path.join(a, b)\<close> on POSIX paths.\<close>

definition path_join :: "pystr \<Rightarrow> pystr \<Rightarrow> pystr" where
  "path_join a b =
     (if b \<noteq> [] \<and> hd b = 47 then b
      else if a = [] \<or> last a = 47 then a @ b
      else a @ [47] @ b)"

definition cache_path :: "pyrt \<Rightarrow> pystr \<Rightarrow> pystr \<Rightarrow> pystr" where
  "cache_path U base_dir url = path_join base_dir (hash_key U url @ py ''.json'')"

definition ensure_dir :: "filesys \<Rightarrow> pystr \<Rightarrow> filesys" where
  "ensure_dir fs p = fs\<lparr>dirs := insert p (dirs fs)\<rparr>"

text \<open>
  The body of the \<^verbatim>\<open>try\<close> block of \<^verbatim>\<open>get\<close> on the file that was found; every exception
  in it gives \<open>None\<close>. \<open>now\<close> is the reading of \<^verbatim>\<open>time.time()\<close>.
\<close>

definition read_entry :: "pyrt \<Rightarrow> rat \<Rightarrow> cache_file \<Rightarrow> cache_entry option" where
  "read_entry U now f =
     (case f of
        Doc (JObj data) \<Rightarrow>
          (case py_int U (dict_get_default data (py ''ttl'') (JInt 0)) of
             Inl e \<Rightarrow> None
           | Inr t \<Rightarrow>
               (case py_float U (dict_get_default data (py ''fetched_at'') (JInt 0)) of
                  Inl e \<Rightarrow> None
                | Inr fa \<Rightarrow>
                    if t > 0 \<and> now - fa > of_int t then None
                    else (case dict_item data (py ''etag'') of
                            Inl e \<Rightarrow> None
                          | Inr tag \<Rightarrow>
                              (case dict_item data (py ''payload'') of
                                 Inl e \<Rightarrow> None
                               | Inr pl \<Rightarrow>
                                   Some \<lparr>etag = py_str U tag, fetched_at = fa,
                                         ttl = t, payload = pl\<rparr>))))
      | _ \<Rightarrow> None)"

definition cache_get :: "pyrt \<Rightarrow> filesys \<Rightarrow> rat \<Rightarrow> pystr \<Rightarrow> pystr \<Rightarrow> cache_entry option \<times> filesys" where
  "cache_get U fs now base_dir url =
     (let fs1 = ensure_dir fs base_dir;
          fp = cache_path U base_dir url
      in case files fs1 fp of
           None \<Rightarrow> (None, fs1)
         | Some f \<Rightarrow> (read_entry U now f, fs1))"

text \<open>\<^verbatim>\<open>os.replace(src, dst)\<close>.\<close>

definition os_replace :: "filesys \<Rightarrow> pystr \<Rightarrow> pystr \<Rightarrow> filesys" where
  "os_replace fs src dst =
     (if src = dst then fs
      else fs\<lparr>files := ((files fs)(dst := files fs src))(src := None)\<rparr>)"

definition cache_set :: "pyrt \<Rightarrow> filesys \<Rightarrow> rat \<Rightarrow> pystr \<Rightarrow> pystr \<Rightarrow> pystr \<Rightarrow> json \<Rightarrow> int \<Rightarrow> filesys" where
  "cache_set U fs now base_dir url tag pl t =
     (let fs1 = ensure_dir fs base_dir;
          fp = cache_path U base_dir url;
          blob = JObj [(py ''etag'', JStr tag), (py ''fetched_at'', JFloat now),
                       (py ''ttl'', JInt t), (py ''payload'', pl)];
          tmp = fp @ py ''.tmp'';
          fs2 = fs1\<lparr>files := (files fs1)(tmp \<mapsto> Doc blob)\<rparr>
      in os_replace fs2 tmp fp)"

section \<open>Rate limiting (app/main.py, app/utils.py)\<close>

text \<open>
  Clock readings and token counts are \<^verbatim>\<open>float\<close>s in the source and exact rationals here.
  A bucket is the pair of its token count and the time of its last update; the table maps
  a client identity to its bucket.
\<close>

type_synonym buckets = "pystr \<rightharpoonup> rat \<times> rat"

text \<open>The lenient limiter of \<^verbatim>\<open>main.py\<close>; \<open>R\<close> is \<^verbatim>\<open>RATE_LIMIT_PER_MIN\<close>.\<close>

definition BURST :: "int \<Rightarrow> int" where
  "BURST R = max 5 (R div 2)"

definition allow :: "int \<Rightarrow> rat \<Rightarrow> buckets \<Rightarrow> pystr \<Rightarrow> bool \<times> buckets" where
  "allow R now B ip =
     (let (tokens, ts) = (case B ip of None \<Rightarrow> (of_int (BURST R), now) | Some b \<Rightarrow> b);
          refill = (of_int R / 60) * (now - ts);
          tokens = min (of_int (BURST R)) (tokens + refill)
      in if tokens \<ge> 1 then (True, B(ip \<mapsto> (tokens - 1, now)))
         else (False, B(ip \<mapsto> (tokens, now))))"

text \<open>
  The strict limiter, \<^verbatim>\<open>RateLimiter.check_rate_limit\<close> of \<^verbatim>\<open>utils.py\<close>, with the constants
  \<^verbatim>\<open>self.RATE = 60\<close> and \<^verbatim>\<open>self.BURST = 30\<close> of the class. The table is updated on both
  paths, also when the exception is raised.
\<close>

definition RATE_strict :: rat where
  "RATE_strict = 60"

definition BURST_strict :: rat where
  "BURST_strict = 30"

definition check_rate_limit :: "rat \<Rightarrow> buckets \<Rightarrow> pystr \<Rightarrow> int \<Rightarrow> (exn + unit) \<times> buckets" where
  "check_rate_limit now B ip limit_per_min =
     (let (tokens, ts) = (case B ip of None \<Rightarrow> (BURST_strict, now) | Some b \<Rightarrow> b);
          tokens = min BURST_strict (tokens + RATE_strict * (now - ts) / 60)
      in if tokens < 1 then (Inl RateLimitError, B(ip \<mapsto> (tokens, now)))
         else (Inr (), B(ip \<mapsto> (tokens - 1, now))))"

text \<open>
  A sequence of admission checks of one client at the given clock readings: the decisions
  and the table afterwards.
\<close>

fun allow_seq :: "int \<Rightarrow> buckets \<Rightarrow> pystr \<Rightarrow> rat list \<Rightarrow> bool list \<times> buckets" where
  "allow_seq R B ip [] = ([], B)"
| "allow_seq R B ip (t # ts) =
     (let (ok, B1) = allow R t B ip;
          (oks, B2) = allow_seq R B1 ip ts
      in (ok # oks, B2))"

fun check_seq :: "buckets \<Rightarrow> pystr \<Rightarrow> int \<Rightarrow> rat list \<Rightarrow> bool list \<times> buckets" where
  "check_seq B ip lpm [] = ([], B)"
| "check_seq B ip lpm (t # ts) =
     (let (r, B1) = check_rate_limit t B ip lpm;
          (oks, B2) = check_seq B1 ip lpm ts
      in ((case r of Inl e \<Rightarrow> False | Inr u \<Rightarrow> True) # oks, B2))"

section \<open>The environment\<close>

text \<open>
  What the code reads from outside the process and the libraries it wraps:
  \<^item> \<open>net n u\<close> is the outcome of the \<open>n\<close>-th HTTP GET that the process issues, asked for
    the URL \<open>u\<close>: an exception of \<^verbatim>\<open>httpx\<close> or a response;
  \<^item> \<open>clock n\<close> and \<open>perf_counter n\<close> are what \<^verbatim>\<open>time.time()\<close> and \<^verbatim>\<open>time.perf_counter()\<close>
    return at the \<open>n\<close>-th timed step of the process (a cache lookup, a cache write, the
    start of \<^verbatim>\<open>core_parse\<close> and the two readings at its end), and \<open>strftime\<close> formats a
    time as \<^verbatim>\<open>time.strftime("%Y-%m-%dT%H:%M:%SZ", time.gmtime())\<close> does;
  \<^item> \<open>fromisoformat d\<close> stands for \<^verbatim>\<open>datetime.fromisoformat(d.replace('Z', '+00:00'))\<close>,
    \<open>None\<close> for \<^verbatim>\<open>ValueError\<close>;
  \<^item> the HTML functions of \<^verbatim>\<open>extractor.py\<close> that only call BeautifulSoup or trafilatura, and
    the language, summary and keyword functions of \<^verbatim>\<open>enrich.py\<close>, are taken as they are;
  \<^item> \<open>sia\<close> is NLTK's VADER analyser: \<open>None\<close> when it cannot be built, and otherwise the
    compound polarity of a text, \<open>None\<close> when the call raises.
\<close>

record response =
  r_status :: nat
  r_url :: pystr
  r_text :: pystr
  r_headers :: "(pystr \<times> pystr) list"

record env =
  net :: "nat \<Rightarrow> pystr \<Rightarrow> httpx_exn + response"
  clock :: "nat \<Rightarrow> rat"
  perf_counter :: "nat \<Rightarrow> rat"
  strftime :: "rat \<Rightarrow> pystr"
  trafilatura :: "pystr \<Rightarrow> pystr \<Rightarrow> json option"
  extract_meta_bs4 :: "pystr \<Rightarrow> pydict"
  fallback_body_text_bs4 :: "pystr \<Rightarrow> pystr"
  extract_title_bs4 :: "pystr \<Rightarrow> pystr option"
  extract_lead_image_bs4 :: "pystr \<Rightarrow> pystr \<Rightarrow> pystr option"
  extract_published_at :: "pystr \<Rightarrow> pystr option \<times> pystr list"
  extract_site_name :: "pystr \<Rightarrow> pystr \<Rightarrow> pystr option"
  fromisoformat :: "pystr \<Rightarrow> pystr option"
  detect_language :: "pystr \<Rightarrow> pystr"
  summarize_text :: "pystr \<Rightarrow> pystr"
  extract_keywords :: "pystr \<Rightarrow> nat \<Rightarrow> pystr list"
  sia :: "(pystr \<Rightarrow> rat option) option"

text \<open>
  The state of the process and of its disk: the cache directory, the number of GETs issued,
  the durations of the \<^verbatim>\<open>asyncio.sleep\<close> calls in order, and the number of timed steps.
\<close>

record world =
  w_fs :: filesys
  w_gets :: nat
  w_slept :: "rat list"
  w_ticks :: nat

definition read_clock :: "env \<Rightarrow> world \<Rightarrow> rat \<times> world" where
  "read_clock E w = (clock E (w_ticks w), w\<lparr>w_ticks := Suc (w_ticks w)\<rparr>)"

definition read_perf :: "env \<Rightarrow> world \<Rightarrow> rat \<times> world" where
  "read_perf E w = (perf_counter E (w_ticks w), w\<lparr>w_ticks := Suc (w_ticks w)\<rparr>)"

definition client_get :: "env \<Rightarrow> world \<Rightarrow> pystr \<Rightarrow> (exn + response) \<times> world" where
  "client_get E w u =
     ((case net E (w_gets w) u of Inl e \<Rightarrow> Inl (Httpx e) | Inr r \<Rightarrow> Inr r),
      w\<lparr>w_gets := Suc (w_gets w)\<rparr>)"

section \<open>Sentiment (app/enrich.py)\<close>

text \<open>
  \<^verbatim>\<open>round(x, 4)\<close>: to the nearest multiple of \<open>1/10000\<close>, ties to the even one. The scores
  are \<^verbatim>\<open>float\<close>s in the source and exact rationals here.
\<close>

definition round_half_even :: "rat \<Rightarrow> int" where
  "round_half_even x =
     (let f = \<lfloor>x\<rfloor>; d = x - of_int f
      in if d < 1 / 2 then f else if d > 1 / 2 then f + 1 else if even f then f else f + 1)"

definition py_round4 :: "rat \<Rightarrow> rat" where
  "py_round4 x = of_int (round_half_even (x * 10000)) / 10000"

text \<open>
  \<^verbatim>\<open>re.split(r"(?<=[\.!\?])\s+", s)\<close>: the text is cut at each run of white space that
  follows a full stop, an exclamation mark or a question mark. \<open>cur\<close> is the piece being read.
\<close>

function re_split_sentences :: "pyrt \<Rightarrow> pystr \<Rightarrow> pystr \<Rightarrow> pystr list" where
  "re_split_sentences U cur [] = [cur]"
| "re_split_sentences U cur (c # cs) =
     (if (c = 46 \<or> c = 33 \<or> c = 63) \<and> cs \<noteq> [] \<and> isspace U (hd cs)
      then (cur @ [c]) # re_split_sentences U [] (dropWhile (isspace U) cs)
      else re_split_sentences U (cur @ [c]) cs)"
  by pat_completeness auto
termination
  by (relation "measure (\<lambda>(U, cur, s). length s)")
     (auto simp: length_dropWhile_le less_Suc_eq_le)

definition sentences_of :: "pyrt \<Rightarrow> pystr \<Rightarrow> pystr list" where
  "sentences_of U sample =
     filter (\<lambda>s. s \<noteq> []) (map (str_strip U) (re_split_sentences U [] (take 4000 sample)))"

text \<open>The scores of the sentences; one call that raises makes the whole list fail.\<close>

fun polarity_scores :: "(pystr \<Rightarrow> rat option) \<Rightarrow> pystr list \<Rightarrow> rat list option" where
  "polarity_scores f [] = Some []"
| "polarity_scores f (s # ss) =
     (case f s of
        None \<Rightarrow> None
      | Some x \<Rightarrow> (case polarity_scores f ss of None \<Rightarrow> None | Some xs \<Rightarrow> Some (x # xs)))"

definition NEUTRAL_DOMAINS :: "pystr list" where
  "NEUTRAL_DOMAINS =
     [py ''wikipedia.org'', py ''wikidata.org'', py ''britannica.com'', py ''baike.baidu.com'',
      py ''encyclopedia.com'', py ''investopedia.com'', py ''dictionary.com'',
      py ''collinsdictionary.com'', py ''thefreedictionary.com'', py ''wordreference.com'']"

definition is_neutral_source :: "pystr option \<Rightarrow> bool" where
  "is_neutral_source source_url =
     (case source_url of
        None \<Rightarrow> False
      | Some u \<Rightarrow> u \<noteq> [] \<and> list_ex (\<lambda>d. str_contains d u) NEUTRAL_DOMAINS)"

definition sentiment_dict :: "pystr \<Rightarrow> rat \<Rightarrow> json" where
  "sentiment_dict l x = JObj [(py ''label'', JStr l), (py ''score'', JFloat x)]"

text \<open>
  The mean compound score of the \<^verbatim>\<open>try\<close> block, \<open>None\<close> when something in it raises.
\<close>

definition compound_of :: "pyrt \<Rightarrow> env \<Rightarrow> pystr \<Rightarrow> rat option" where
  "compound_of U E sample =
     (case sia E of
        None \<Rightarrow> None
      | Some f \<Rightarrow>
          (let sentences = sentences_of U sample
           in if sentences \<noteq> []
              then (case polarity_scores f sentences of
                      None \<Rightarrow> None
                    | Some scores \<Rightarrow> Some (sum_list scores / of_nat (length scores)))
              else f (take 4000 sample)))"

definition analyze_sentiment :: "pyrt \<Rightarrow> env \<Rightarrow> pystr \<Rightarrow> pystr option \<Rightarrow> json" where
  "analyze_sentiment U E text source_url =
     (let sample = str_strip U text
      in if sample = [] then sentiment_dict (py ''neutral'') 0
         else (case compound_of U E sample of
                 None \<Rightarrow> sentiment_dict (py ''neutral'') 0
               | Some c \<Rightarrow>
                   (let comp = (if is_neutral_source source_url
                                then max (min c (4 / 100)) (- (4 / 100))
                                else max (min c (6 / 10)) (- (6 / 10)));
                        l = (if comp > 5 / 100 then py ''positive''
                             else if comp < - (5 / 100) then py ''negative''
                             else py ''neutral'')
                    in sentiment_dict l (py_round4 comp))))"

section \<open>Fetching (app/extractor.py)\<close>

text \<open>
  \<^verbatim>\<open>response.raise_for_status()\<close> raises \<^verbatim>\<open>HTTPStatusError\<close> for the client and server error
  statuses and returns for the success statuses.
\<close>

definition raise_for_status :: "pyrt \<Rightarrow> response \<Rightarrow> exn + unit" where
  "raise_for_status U r =
     (if 400 \<le> r_status r \<and> r_status r \<le> 599 then Inl (HTTPStatusError (r_status r))
      else if 200 \<le> r_status r \<and> r_status r \<le> 299 then Inr ()
      else if status_raises U (r_status r) then Inl (HTTPStatusError (r_status r))
      else Inr ())"

text \<open>
  The body of the \<^verbatim>\<open>try\<close> of one attempt: the GET, the status check and, for a sparse
  Wikipedia page, the GET of the printable view, whose exceptions are swallowed.
\<close>

definition attempt_once :: "pyrt \<Rightarrow> env \<Rightarrow> world \<Rightarrow> pystr \<Rightarrow> (exn + pystr \<times> (pystr \<times> pystr) list) \<times> world" where
  "attempt_once U E w u =
     (case client_get E w u of
        (Inl e, w1) \<Rightarrow> (Inl e, w1)
      | (Inr resp, w1) \<Rightarrow>
          (case raise_for_status U resp of
             Inl e \<Rightarrow> (Inl e, w1)
           | Inr _ \<Rightarrow>
               if r_status resp = 200 \<and> str_contains (py ''wikipedia.org'') (ulower U (r_url resp))
               then (let html = r_text resp
                     in if count_p html < 5 \<and> \<not> has_printable U (r_url resp)
                        then (case client_get E w1 (with_printable U (r_url resp)) of
                                (Inl e, w2) \<Rightarrow> (Inr (html, r_headers resp), w2)
                              | (Inr r2, w2) \<Rightarrow>
                                  if r_status r2 = 200 \<and> count_p (r_text r2) > count_p html
                                  then (Inr (r_text r2, r_headers r2), w2)
                                  else (Inr (html, r_headers resp), w2))
                        else (Inr (html, r_headers resp), w1))
               else (Inr (r_text resp, r_headers resp), w1)))"

text \<open>
  The exception with which an attempt whose first GET is the \<open>n\<close>-th of the process fails:
  the one raised by the GET, or the one raised by \<^verbatim>\<open>raise_for_status\<close> on its response.
\<close>

definition get_error :: "pyrt \<Rightarrow> env \<Rightarrow> nat \<Rightarrow> pystr \<Rightarrow> exn option" where
  "get_error U E n u =
     (case net E n u of
        Inl e \<Rightarrow> Some (Httpx e)
      | Inr r \<Rightarrow> (case raise_for_status U r of Inl e \<Rightarrow> Some e | Inr _ \<Rightarrow> None))"

text \<open>
  The loop \<^verbatim>\<open>for attempt in range(3)\<close> from the given attempt on. An exception that is a
  \<^verbatim>\<open>TimeoutException\<close> or an \<^verbatim>\<open>HTTPError\<close> is raised again on the last attempt and is
  followed by a sleep and the next attempt otherwise; any other exception propagates. A
  loop that ended without returning would return \<^verbatim>\<open>None\<close>.
\<close>

function fetch_attempts :: "pyrt \<Rightarrow> env \<Rightarrow> pystr \<Rightarrow> nat \<Rightarrow> world \<Rightarrow> (exn + (pystr \<times> (pystr \<times> pystr) list) option) \<times> world" where
  "fetch_attempts U E u attempt w =
     (if attempt \<ge> 3 then (Inr None, w)
      else (case attempt_once U E w u of
              (Inr res, w1) \<Rightarrow> (Inr (Some res), w1)
            | (Inl e, w1) \<Rightarrow>
                if is_TimeoutException e \<or> is_HTTPError e
                then (if attempt = 2 then (Inl e, w1)
                      else fetch_attempts U E u (attempt + 1)
                             (w1\<lparr>w_slept := w_slept w1 @ [(1 / 2) * 2 ^ attempt]\<rparr>))
                else (Inl e, w1)))"
  by pat_completeness auto
termination
  by (relation "measure (\<lambda>(U, E, u, attempt, w). 3 - attempt)") auto

declare fetch_attempts.simps [simp del]

definition fetch_html :: "pyrt \<Rightarrow> env \<Rightarrow> world \<Rightarrow> pystr \<Rightarrow> (exn + (pystr \<times> (pystr \<times> pystr) list) option) \<times> world" where
  "fetch_html U E w u = fetch_attempts U E u 0 w"

section \<open>Extraction (app/extractor.py)\<close>

text \<open>\<^verbatim>\<open>d[k] = v\<close>: an existing key keeps its place.\<close>

fun dict_set :: "pydict \<Rightarrow> pystr \<Rightarrow> json \<Rightarrow> pydict" where
  "dict_set [] k v = [(k, v)]"
| "dict_set ((k', v') # d) k v = (if k' = k then (k, v) # d else (k', v') # dict_set d k v)"

definition opt_json :: "pystr option \<Rightarrow> json" where
  "opt_json x = (case x of None \<Rightarrow> JNull | Some s \<Rightarrow> JStr s)"

text \<open>
  \<^verbatim>\<open>extract_trafilatura\<close>: the four fields of what trafilatura returns, and the empty
  \<^verbatim>\<open>dict\<close> when it returns nothing or anything raises.
\<close>

definition extract_trafilatura :: "env \<Rightarrow> pystr \<Rightarrow> pystr \<Rightarrow> pydict" where
  "extract_trafilatura E html u =
     (case trafilatura E html u of
        Some (JObj j) \<Rightarrow>
          [(py ''title'', dict_get j (py ''title'')),
           (py ''text'', py_or (dict_get j (py ''text'')) (JStr [])),
           (py ''date'', dict_get j (py ''date'')),
           (py ''image'', dict_get j (py ''image''))]
      | _ \<Rightarrow> [])"

text \<open>The loop of \<^verbatim>\<open>merge_extraction\<close> that fills a missing field from the metadata.\<close>

definition fill_gap :: "pydict \<Rightarrow> pydict \<Rightarrow> pystr \<Rightarrow> pydict" where
  "fill_gap meta result k =
     (if \<not> truthy (dict_get result k) \<and> truthy (dict_get meta k)
      then dict_set result k (dict_get meta k) else result)"

text \<open>
  \<^verbatim>\<open>merge_extraction\<close>. A text or a date that is not a string has no \<^verbatim>\<open>strip\<close> or
  \<^verbatim>\<open>replace\<close>. The parsed date, which \<^verbatim>\<open>core_parse\<close> does not read, is kept as a string.
\<close>

definition merge_extraction :: "pyrt \<Rightarrow> env \<Rightarrow> pydict \<Rightarrow> pydict \<Rightarrow> pystr \<Rightarrow> pystr \<Rightarrow> exn + pydict \<times> bool" where
  "merge_extraction U E primary meta html u =
     (let r1 = fill_gap meta (fill_gap meta (fill_gap meta primary (py ''title'')) (py ''date''))
                 (py ''image'')
      in case py_or (dict_get r1 (py ''text'')) (JStr []) of
           JStr t \<Rightarrow>
             (let short = length (str_split U (str_strip U t)) < 20;
                  r2 = (if short then dict_set r1 (py ''text'') (JStr (fallback_body_text_bs4 E html))
                        else r1);
                  title = (if \<not> truthy (dict_get r2 (py ''title''))
                           then extract_title_bs4 E html else None);
                  got_title = (case title of None \<Rightarrow> False | Some s \<Rightarrow> s \<noteq> []);
                  r3 = (if got_title then dict_set r2 (py ''title'') (opt_json title) else r2);
                  image = (if \<not> truthy (dict_get r3 (py ''image''))
                           then extract_lead_image_bs4 E html u else None);
                  got_image = (case image of None \<Rightarrow> False | Some s \<Rightarrow> s \<noteq> []);
                  r4 = (if got_image then dict_set r3 (py ''image'') (opt_json image) else r3);
                  used_bs4 = (short \<or> got_title \<or> got_image)
              in if truthy (dict_get r4 (py ''date''))
                 then (case dict_get r4 (py ''date'') of
                         JStr d \<Rightarrow>
                           Inr (dict_set r4 (py ''date'') (opt_json (fromisoformat E d)), used_bs4)
                       | _ \<Rightarrow> Inl AttributeError)
                 else Inr (r4, used_bs4))
         | _ \<Rightarrow> Inl AttributeError)"

section \<open>The orchestrator (app/main.py)\<close>

text \<open>The settings that \<^verbatim>\<open>main.py\<close> reads from the process environment.\<close>

record config =
  CACHE_DIR :: pystr
  CACHE_TTL_SECONDS :: int
  DEFAULT_CACHE_TTL_SECONDS :: int
  MAX_ENRICH_CHARS :: int

definition PARSER_VERSION :: pystr where
  "PARSER_VERSION = py ''v1''"

definition etag_for :: "pyrt \<Rightarrow> pystr \<Rightarrow> pystr" where
  "etag_for U u = py ''W/\"'' @ blake2b_hex U (u @ py ''|'' @ PARSER_VERSION) @ py ''\"''"

text \<open>\<^verbatim>\<open>s[:n]\<close> for an integer \<open>n\<close>: a negative \<open>n\<close> counts from the end.\<close>

definition slice_to :: "int \<Rightarrow> pystr \<Rightarrow> pystr" where
  "slice_to n s = (if 0 \<le> n then take (nat n) s else take (length s - nat (- n)) s)"

text \<open>\<^verbatim>\<open>normalize_text\<close> on the value found under \<^verbatim>\<open>text\<close>.\<close>

definition normalize_value :: "pyrt \<Rightarrow> json \<Rightarrow> exn + pystr" where
  "normalize_value U v =
     (if \<not> truthy v then Inr []
      else (case v of JStr t \<Rightarrow> Inr (normalize_text U t) | _ \<Rightarrow> Inl AttributeError))"

datatype http_response =
    Response nat
  | JSONResponse nat json "(pystr \<times> pystr) list"

text \<open>
  The second half of \<^verbatim>\<open>core_parse\<close>, after the check of the text: the remaining fields, the
  enrichment and the record. \<open>start\<close> is the reading of \<^verbatim>\<open>time.perf_counter()\<close> at the
  beginning of \<^verbatim>\<open>core_parse\<close>.
\<close>

definition build_record :: "pyrt \<Rightarrow> env \<Rightarrow> config \<Rightarrow> world \<Rightarrow> rat \<Rightarrow> pystr \<Rightarrow> pystr \<Rightarrow> pydict \<Rightarrow> bool \<Rightarrow> pystr \<Rightarrow> pydict \<times> world" where
  "build_record U E C w1 start url_str html data used_bs4_fallback text =
     (let title = py_or (py_or (dict_get data (py ''title''))
                      (opt_json (extract_title_bs4 E html))) (JStr []);
          lead_image_url = py_or (dict_get data (py ''image''))
                      (opt_json (extract_lead_image_bs4 E html url_str));
          (published_at, published_sources) = extract_published_at E html;
          site = extract_site_name E html url_str;
          max_chars = MAX_ENRICH_CHARS C;
          enrich_text = (if int (length text) > max_chars
                         then slice_to max_chars text else text);
          language = detect_language E enrich_text;
          summary = summarize_text E enrich_text;
          keywords = extract_keywords E enrich_text 12;
          sentiment = analyze_sentiment U E
                        (if summary \<noteq> [] then summary else take 3000 text) None;
          (fetched, w2) = read_clock E w1;
          (stop, w3) = read_perf E w2;
          elapsed = (stop - start) * 1000
      in ([(py ''url'', JStr url_str),
           (py ''title'', py_or title (JStr [])),
           (py ''text'', JStr text),
           (py ''language'', JStr language),
           (py ''published_at'', opt_json published_at),
           (py ''lead_image_url'', lead_image_url),
           (py ''word_count'', JInt (int (word_count U text))),
           (py ''summary'', JStr summary),
           (py ''keywords'', JArr (map JStr keywords)),
           (py ''sentiment'', py_or sentiment (sentiment_dict (py ''neutral'') 0)),
           (py ''meta'', JObj
              [(py ''site'', opt_json site),
               (py ''published_sources'', JArr (map JStr published_sources)),
               (py ''parser'', JStr (if used_bs4_fallback then py ''trafilatura|bs4''
                                     else py ''trafilatura'')),
               (py ''fetched_at'', JStr (strftime E fetched)),
               (py ''elapsed_ms'', JInt (if 0 \<le> elapsed then \<lfloor>elapsed\<rfloor> else \<lceil>elapsed\<rceil>)),
               (py ''cache'', JBool False)])],
          w3))"

text \<open>
  \<^verbatim>\<open>core_parse\<close>. The timeout and the user agent go to \<^verbatim>\<open>httpx\<close> unchanged and do not
  occur here. A fetch that returned \<^verbatim>\<open>None\<close> could not be unpacked.
\<close>

definition core_parse :: "pyrt \<Rightarrow> env \<Rightarrow> config \<Rightarrow> world \<Rightarrow> pystr \<Rightarrow> (exn + pydict) \<times> world" where
  "core_parse U E C w url_str =
     (let (start, w0) = read_perf E w
      in case fetch_html U E w0 url_str of
           (Inl e, w1) \<Rightarrow> (Inl e, w1)
         | (Inr None, w1) \<Rightarrow> (Inl TypeError, w1)
         | (Inr (Some (html, hdrs)), w1) \<Rightarrow>
             if \<not> str_contains (py ''text/html'')
                    (ulower U (case map_of hdrs (py ''content-type'') of None \<Rightarrow> [] | Some v \<Rightarrow> v))
             then (Inl (HTTPException 415 (py ''unsupported content-type'')), w1)
             else
               (let content = extract_trafilatura E html url_str;
                    meta_data = extract_meta_bs4 E html
                in case merge_extraction U E content meta_data html url_str of
                     Inl e \<Rightarrow> (Inl e, w1)
                   | Inr (data, used_bs4_fallback) \<Rightarrow>
                       (case normalize_value U (dict_get_default data (py ''text'') (JStr [])) of
                          Inl e \<Rightarrow> (Inl e, w1)
                        | Inr nt \<Rightarrow>
                            (let text = clean_citations_and_spaces U nt
                             in if text = [] \<or> word_count U text < 10
                                then (Inl (HTTPException 422
                                        (py ''parse_failed: too little text extracted'')), w1)
                                else (case build_record U E C w1 start url_str html data
                                             used_bs4_fallback text of
                                        (result, w3) \<Rightarrow> (Inr result, w3))))))"

definition cache_headers :: "pyrt \<Rightarrow> pystr \<Rightarrow> int \<Rightarrow> (pystr \<times> pystr) list" where
  "cache_headers U tag t =
     [(py ''ETag'', tag), (py ''Cache-Control'', py ''public, max-age='' @ py_str U (JInt t))]"

text \<open>A cache lookup at the current time.\<close>

definition cache_lookup :: "pyrt \<Rightarrow> env \<Rightarrow> config \<Rightarrow> world \<Rightarrow> pystr \<Rightarrow> cache_entry option \<times> world" where
  "cache_lookup U E C w url_str =
     (let (now, w1) = read_clock E w;
          (cached, fs1) = cache_get U (w_fs w1) now (CACHE_DIR C) url_str
      in (cached, w1\<lparr>w_fs := fs1\<rparr>))"

definition cache_store :: "pyrt \<Rightarrow> env \<Rightarrow> config \<Rightarrow> world \<Rightarrow> pystr \<Rightarrow> pystr \<Rightarrow> json \<Rightarrow> world" where
  "cache_store U E C w url_str tag pl =
     (let (now, w1) = read_clock E w
      in w1\<lparr>w_fs := cache_set U (w_fs w1) now (CACHE_DIR C) url_str tag pl (CACHE_TTL_SECONDS C)\<rparr>)"

text \<open>
  The handler of \<^verbatim>\<open>POST /v1/parse\<close>; \<open>inm\<close> is the \<^verbatim>\<open>If-None-Match\<close> header of the request.
  \<^verbatim>\<open>jsonable_encoder\<close> leaves a JSON value as it is, and \<^verbatim>\<open>_enforce_cache_budget\<close> has no
  effect.
\<close>

definition parse :: "pyrt \<Rightarrow> env \<Rightarrow> config \<Rightarrow> world \<Rightarrow> pystr \<Rightarrow> pystr option \<Rightarrow> (exn + http_response) \<times> world" where
  "parse U E C w url_str inm =
     (let tag = etag_for U url_str;
          (not_modified, w1) =
            (if inm = Some tag
             then (let (cached, w') = cache_lookup U E C w url_str
                   in ((case cached of None \<Rightarrow> False | Some c \<Rightarrow> etag c = tag), w'))
             else (False, w))
      in if not_modified then (Inr (Response 304), w1)
         else
           (let (cached, w2) = cache_lookup U E C w1 url_str
            in case (case cached of None \<Rightarrow> None
                     | Some c \<Rightarrow> if etag c = tag then Some c else None) of
                 Some c \<Rightarrow>
                   (Inr (JSONResponse 200 (payload c)
                          (cache_headers U (etag c) (DEFAULT_CACHE_TTL_SECONDS C))), w2)
               | None \<Rightarrow>
                   (case core_parse U E C w2 url_str of
                      (Inl e, w3) \<Rightarrow> (Inl e, w3)
                    | (Inr result, w3) \<Rightarrow>
                        (let w4 = cache_store U E C w3 url_str tag (JObj result)
                         in (Inr (JSONResponse 200 (JObj result)
                                   (cache_headers U tag (DEFAULT_CACHE_TTL_SECONDS C))), w4)))))"

subsection \<open>Projections of the full record\<close>

text \<open>
  \<^verbatim>\<open>(full.get("meta") or {}).get("site")\<close>: a truthy \<^verbatim>\<open>meta\<close> that is not a \<^verbatim>\<open>dict\<close> has
  no \<^verbatim>\<open>get\<close>.
\<close>

definition meta_site :: "pydict \<Rightarrow> exn + json" where
  "meta_site full =
     (case py_or (dict_get full (py ''meta'')) (JObj []) of
        JObj m \<Rightarrow> Inr (dict_get m (py ''site''))
      | _ \<Rightarrow> Inl AttributeError)"

definition neutral_sentiment :: json where
  "neutral_sentiment = JObj [(py ''label'', JStr (py ''neutral'')), (py ''score'', JFloat 0)]"

definition project_metadata :: "pydict \<Rightarrow> exn + json" where
  "project_metadata full =
     (case meta_site full of
        Inl e \<Rightarrow> Inl e
      | Inr site \<Rightarrow> Inr (JObj
          [(py ''url'', dict_get full (py ''url'')),
           (py ''title'', dict_get full (py ''title'')),
           (py ''language'', dict_get full (py ''language'')),
           (py ''published_at'', dict_get full (py ''published_at'')),
           (py ''lead_image_url'', dict_get full (py ''lead_image_url'')),
           (py ''word_count'', dict_get full (py ''word_count'')),
           (py ''site'', site)]))"

definition project_summary :: "pydict \<Rightarrow> exn + json" where
  "project_summary full =
     (case meta_site full of
        Inl e \<Rightarrow> Inl e
      | Inr site \<Rightarrow> Inr (JObj
          [(py ''url'', dict_get full (py ''url'')),
           (py ''title'', dict_get full (py ''title'')),
           (py ''summary'', dict_get full (py ''summary'')),
           (py ''keywords'', py_or (dict_get full (py ''keywords'')) (JArr [])),
           (py ''sentiment'', py_or (dict_get full (py ''sentiment'')) neutral_sentiment),
           (py ''language'', dict_get full (py ''language'')),
           (py ''site'', site)]))"

text \<open>
  The first two lines of \<^verbatim>\<open>_project_preview\<close>: the text that is chosen, and the snippet
  made from it. 8230 is the ellipsis character.
\<close>

definition preview_text :: "pydict \<Rightarrow> json" where
  "preview_text full =
     py_or (dict_get full (py ''summary'')) (py_or (dict_get full (py ''text'')) (JStr []))"

definition preview_snippet :: "pydict \<Rightarrow> json" where
  "preview_snippet full =
     (case preview_text full of
        JStr t \<Rightarrow> if length t > 300 then JStr (take 280 t @ [8230]) else JStr t
      | v \<Rightarrow> v)"

definition project_preview :: "pydict \<Rightarrow> exn + json" where
  "project_preview full =
     (let snippet = preview_snippet full in
      case meta_site full of
        Inl e \<Rightarrow> Inl e
      | Inr site \<Rightarrow> Inr (JObj
          [(py ''url'', dict_get full (py ''url'')),
           (py ''title'', dict_get full (py ''title'')),
           (py ''snippet'', snippet),
           (py ''lead_image_url'', dict_get full (py ''lead_image_url'')),
           (py ''published_at'', dict_get full (py ''published_at'')),
           (py ''site'', site)]))"

text \<open>
  The snippet as the specification words it: the summary when it is non-empty and the body
  text otherwise, cut to 280 characters with an ellipsis when it is longer than 280.
\<close>

definition spec_snippet :: "pystr \<Rightarrow> pystr \<Rightarrow> pystr" where
  "spec_snippet summary text =
     (let t = (if summary \<noteq> [] then summary else text)
      in if length t > 280 then take 280 t @ [8230] else t)"

subsection \<open>The projection endpoints\<close>

text \<open>
  The handlers of \<^verbatim>\<open>/v1/metadata\<close>, \<^verbatim>\<open>/v1/summary\<close> and \<^verbatim>\<open>/v1/preview\<close> are the same code
  up to the suffix of the entity tag and the projection. The body of the response of
  \<^verbatim>\<open>parse\<close> is read back as JSON; a body that is not a \<^verbatim>\<open>dict\<close> has no \<^verbatim>\<open>get\<close>.
\<close>

definition projection_endpoint :: "pystr \<Rightarrow> (pydict \<Rightarrow> exn + json) \<Rightarrow> pyrt \<Rightarrow> env \<Rightarrow> config \<Rightarrow> world \<Rightarrow> pystr \<Rightarrow> pystr option \<Rightarrow> (exn + http_response) \<times> world" where
  "projection_endpoint suffix proj U E C w url_str inm =
     (let tag = etag_for U url_str @ suffix
      in if inm = Some tag then (Inr (Response 304), w)
         else (case parse U E C w url_str inm of
                 (Inl e, w1) \<Rightarrow> (Inl e, w1)
               | (Inr (Response s), w1) \<Rightarrow>
                   if s = 304 then (Inr (Response 304), w1) else (Inl AttributeError, w1)
               | (Inr (JSONResponse s data hs), w1) \<Rightarrow>
                   if s = 304 then (Inr (Response 304), w1)
                   else (case data of
                           JObj d \<Rightarrow>
                             (case proj d of
                                Inl e \<Rightarrow> (Inl e, w1)
                              | Inr p \<Rightarrow>
                                  (Inr (JSONResponse 200 p
                                         (cache_headers U tag (DEFAULT_CACHE_TTL_SECONDS C))), w1))
                         | _ \<Rightarrow> (Inl AttributeError, w1))))"

definition metadata :: "pyrt \<Rightarrow> env \<Rightarrow> config \<Rightarrow> world \<Rightarrow> pystr \<Rightarrow> pystr option \<Rightarrow> (exn + http_response) \<times> world" where
  "metadata = projection_endpoint (py ''-meta'') project_metadata"

definition summary :: "pyrt \<Rightarrow> env \<Rightarrow> config \<Rightarrow> world \<Rightarrow> pystr \<Rightarrow> pystr option \<Rightarrow> (exn + http_response) \<times> world" where
  "summary = projection_endpoint (py ''-sum'') project_summary"

definition preview :: "pyrt \<Rightarrow> env \<Rightarrow> config \<Rightarrow> world \<Rightarrow> pystr \<Rightarrow> pystr option \<Rightarrow> (exn + http_response) \<times> world" where
  "preview = projection_endpoint (py ''-prev'') project_preview"

text \<open>
  The status of the HTTP response: that of the response returned, or the one that the
  exception handlers of the application give to the exception.
\<close>

fun status_of :: "exn + http_response \<Rightarrow> nat" where
  "status_of (Inr (Response s)) = s"
| "status_of (Inr (JSONResponse s b hs)) = s"
| "status_of (Inl (HTTPException s d)) = s"
| "status_of (Inl RateLimitError) = 429"
| "status_of (Inl (Httpx e)) = (if e = TimeoutException then 504 else 500)"
| "status_of (Inl ValueError) = 400"
| "status_of (Inl e) = 500"

fun body_of :: "http_response \<Rightarrow> json option" where
  "body_of (Response s) = None"
| "body_of (JSONResponse s b hs) = Some b"

section \<open>Example inputs\<close>

text \<open>
  A runtime for the examples: no character from 128 on belongs to a class, strings are not
  numbers, and the digests are the identity.
\<close>

definition rt0 :: pyrt where
  "rt0 = \<lparr>uspace = (\<lambda>c. False), udecimal = (\<lambda>c. False), ualnum = (\<lambda>c. False),
          ulower = (\<lambda>s. s), int_of_str = (\<lambda>s. None), float_of_str = (\<lambda>s. None),
          str_of = (\<lambda>v. []), sha256_hex = (\<lambda>s. s), blake2b_hex = (\<lambda>s. s),
          has_printable = (\<lambda>u. False), with_printable = (\<lambda>u. u @ py ''?printable=yes''),
          status_raises = (\<lambda>c. True)\<rparr>"

text \<open>A cache directory with one entry for the URL \<^verbatim>\<open>u\<close>, written at time 100.\<close>

definition entry0 :: "int \<Rightarrow> pydict" where
  "entry0 t = [(py ''etag'', JStr (py ''W/\"u|v1\"'')), (py ''fetched_at'', JFloat 100),
               (py ''ttl'', JInt t), (py ''payload'', JObj [(py ''url'', JStr (py ''u''))])]"

definition fs0 :: "int \<Rightarrow> filesys" where
  "fs0 t = \<lparr>dirs = {py ''c''}, files = [py ''c/u.json'' \<mapsto> Doc (JObj (entry0 t))]\<rparr>"

definition fs_empty :: filesys where
  "fs_empty = \<lparr>dirs = {}, files = Map.empty\<rparr>"

text \<open>
  An environment in which every GET fails with a transport error, trafilatura finds
  nothing, the summary is the first 20 characters, and the analyser scores every sentence
  0.9.
\<close>

definition env0 :: env where
  "env0 = \<lparr>net = (\<lambda>n u. Inl TransportError), clock = (\<lambda>n. 100 + of_nat n),
           perf_counter = (\<lambda>n. of_nat n), strftime = (\<lambda>t. py ''2025-01-01T00:00:00Z''),
           trafilatura = (\<lambda>h u. None), extract_meta_bs4 = (\<lambda>h. []),
           fallback_body_text_bs4 = (\<lambda>h. []), extract_title_bs4 = (\<lambda>h. None),
           extract_lead_image_bs4 = (\<lambda>h u. None), extract_published_at = (\<lambda>h. (None, [])),
           extract_site_name = (\<lambda>h u. None), fromisoformat = (\<lambda>d. None),
           detect_language = (\<lambda>t. py ''en''), summarize_text = (\<lambda>t. take 20 t),
           extract_keywords = (\<lambda>t k. []), sia = Some (\<lambda>s. Some (9 / 10))\<rparr>"

text \<open>A response with the given status, an HTML content type and the given body.\<close>

definition resp0 :: "nat \<Rightarrow> pystr \<Rightarrow> response" where
  "resp0 s body = \<lparr>r_status = s, r_url = py ''http://e.org/a'', r_text = body,
                   r_headers = [(py ''content-type'', py ''text/html; charset=utf-8'')]\<rparr>"

definition world0 :: "filesys \<Rightarrow> world" where
  "world0 fs = \<lparr>w_fs = fs, w_gets = 0, w_slept = [], w_ticks = 0\<rparr>"

text \<open>
  Environments for the fetcher: one in which every GET is answered with the status 503, and
  one in which the first GET times out, the second is answered with 503 and the third fails
  with a transport error. In \<open>env_invalid\<close> the first GET raises \<^verbatim>\<open>InvalidURL\<close>.
\<close>

definition env503 :: env where
  "env503 = env0\<lparr>net := (\<lambda>n u. Inr (resp0 503 []))\<rparr>"

definition env_flaky :: env where
  "env_flaky = env0\<lparr>net := (\<lambda>n u. if n = 0 then Inl TimeoutException
                                   else if n = 1 then Inr (resp0 503 [])
                                   else Inl TransportError)\<rparr>"

definition env_invalid :: env where
  "env_invalid = env0\<lparr>net := (\<lambda>n u. Inl InvalidURL)\<rparr>"

text \<open>
  An environment in which every GET is answered with the status 200 and an HTML page, and
  the fallback extractor finds the given text in it.
\<close>

definition env_page :: "pystr \<Rightarrow> env" where
  "env_page body_text =
     env0\<lparr>net := (\<lambda>n u. Inr (resp0 200 (py ''<html></html>''))),
          fallback_body_text_bs4 := (\<lambda>h. body_text)\<rparr>"

definition config0 :: config where
  "config0 = \<lparr>CACHE_DIR = py ''c'', CACHE_TTL_SECONDS = 3600,
              DEFAULT_CACHE_TTL_SECONDS = 600, MAX_ENRICH_CHARS = 6000\<rparr>"

section \<open>Properties\<close>

subsection \<open>Text cleaning\<close>

text \<open>
  C7. The cleaning step \<^verbatim>\<open>clean_citations_and_spaces(normalize_text(s))\<close> is not idempotent:
  on \<^verbatim>\<open>a[1][2].\<close> the two adjacent citation markers leave two spaces before the full stop,
  \<^verbatim>\<open>replace(" .", ".")\<close> removes one of them, and the result \<^verbatim>\<open>a .\<close> is cleaned to \<^verbatim>\<open>a.\<close>
  by a second application.
\<close>

theorem clean_text_not_idempotent:
  "clean_text U (py ''a[1][2].'') = py ''a .''
   \<and> clean_text U (clean_text U (py ''a[1][2].'')) = py ''a.''
   \<and> clean_text U (clean_text U (py ''a[1][2].'')) \<noteq> clean_text U (py ''a[1][2].'')"
  by (simp add: py_def clean_text_def clean_citations_and_spaces_def normalize_text_def
      str_split_def isspace_def isdecimal_def match_cite_def str_strip_def)

subsection \<open>The preview projection\<close>

text \<open>
  C8 (as the code has it). For a full record, whose summary and body text are strings and
  whose \<^verbatim>\<open>meta\<close> is a \<^verbatim>\<open>dict\<close>, the preview projection succeeds and its snippet is the
  summary when the summary is non-empty and the body text otherwise, cut to 280 characters
  followed by the ellipsis when that text is longer than 300 characters, and whole
  otherwise.
\<close>

theorem project_preview_snippet:
  assumes "dict_get full (py ''summary'') = JStr s"
    and "dict_get full (py ''text'') = JStr t"
    and "dict_get full (py ''meta'') = JObj m"
  shows "\<exists>p. project_preview full = Inr (JObj p)
           \<and> dict_get p (py ''snippet'') =
               JStr (let c = (if s \<noteq> [] then s else t)
                     in if length c > 300 then take 280 c @ [8230] else c)"
  using assms
  by (simp add: project_preview_def preview_snippet_def preview_text_def meta_site_def
      py_or_def dict_get_def py_def Let_def)

text \<open>A record with a summary of 301 characters: the snippet is cut.\<close>

theorem project_preview_snippet_witness:
  "dict_get [(py ''summary'', JStr (replicate 301 97)), (py ''text'', JStr (replicate 400 98)),
             (py ''meta'', JObj [])] (py ''summary'') = JStr (replicate 301 97)
   \<and> dict_get [(py ''summary'', JStr (replicate 301 97)), (py ''text'', JStr (replicate 400 98)),
                (py ''meta'', JObj [])] (py ''text'') = JStr (replicate 400 98)
   \<and> dict_get [(py ''summary'', JStr (replicate 301 97)), (py ''text'', JStr (replicate 400 98)),
                (py ''meta'', JObj [])] (py ''meta'') = JObj []
   \<and> (\<exists>p. project_preview
              [(py ''summary'', JStr (replicate 301 97)), (py ''text'', JStr (replicate 400 98)),
               (py ''meta'', JObj [])] = Inr (JObj p)
          \<and> dict_get p (py ''snippet'') = JStr (replicate 280 97 @ [8230]))"
  using project_preview_snippet
    [of "[(py ''summary'', JStr (replicate 301 97)), (py ''text'', JStr (replicate 400 98)),
          (py ''meta'', JObj [])]" "replicate 301 97" "replicate 400 98" "[]"]
  by (simp add: dict_get_def py_def)

text \<open>
  C8 as the specification states it fails: a summary of 290 characters is longer than 280,
  and the projection returns it whole, where the specification's snippet is its first 280
  characters and the ellipsis.
\<close>

theorem project_preview_snippet_counterexample:
  "(\<exists>p. project_preview
           [(py ''summary'', JStr (replicate 290 97)), (py ''text'', JStr (replicate 400 98)),
            (py ''meta'', JObj [])] = Inr (JObj p)
        \<and> dict_get p (py ''snippet'') = JStr (replicate 290 97))
   \<and> length (replicate 290 (97::nat)) > 280
   \<and> spec_snippet (replicate 290 97) (replicate 400 98) = replicate 280 97 @ [8230]
   \<and> JStr (replicate 290 97) \<noteq> JStr (spec_snippet (replicate 290 97) (replicate 400 98))"
proof -
  have "replicate 290 (97::nat) \<noteq> replicate 280 97 @ [8230]"
  proof
    assume "replicate 290 (97::nat) = replicate 280 97 @ [8230]"
    then have "length (replicate 290 (97::nat)) = length (replicate 280 (97::nat) @ [8230])"
      by (rule arg_cong)
    then show False by simp
  qed
  then show ?thesis
    by (simp add: project_preview_def preview_snippet_def preview_text_def meta_site_def
        py_or_def dict_get_def py_def spec_snippet_def)
qed

subsection \<open>The file cache\<close>

text \<open>
  C4. Let the file of a URL hold a JSON object whose \<^verbatim>\<open>ttl\<close> and \<^verbatim>\<open>fetched_at\<close> convert to
  \<open>t\<close> and \<open>fa\<close>. When \<open>t > 0\<close> and the age \<open>now - fa\<close> strictly exceeds \<open>t\<close>, \<^verbatim>\<open>get\<close> returns
  absent and leaves every file of the cache in place. When \<open>t = 0\<close> (and the object has an
  \<^verbatim>\<open>etag\<close> and a \<^verbatim>\<open>payload\<close>), \<^verbatim>\<open>get\<close> returns the entry at every time \<open>now\<close>.
\<close>

theorem cache_get_expiry:
  assumes "files fs (cache_path U base url) = Some (Doc (JObj data))"
    and "py_int U (dict_get_default data (py ''ttl'') (JInt 0)) = Inr t"
    and "py_float U (dict_get_default data (py ''fetched_at'') (JInt 0)) = Inr fa"
  shows "(t > 0 \<and> now - fa > of_int t \<longrightarrow>
            fst (cache_get U fs now base url) = None
            \<and> files (snd (cache_get U fs now base url)) = files fs)
       \<and> (t = 0 \<and> dict_item data (py ''etag'') = Inr tag \<and> dict_item data (py ''payload'') = Inr pl \<longrightarrow>
            fst (cache_get U fs now base url)
              = Some \<lparr>etag = py_str U tag, fetched_at = fa, ttl = 0, payload = pl\<rparr>)"
  using assms
  by (simp add: cache_get_def ensure_dir_def read_entry_def Let_def)

text \<open>
  An entry with \<open>ttl = 600\<close> written at time 100 is absent at time 701 and its file stays; an
  entry with \<open>ttl = 0\<close> is still returned a billion seconds later.
\<close>

theorem cache_get_expiry_witness:
  "files (fs0 600) (cache_path rt0 (py ''c'') (py ''u'')) = Some (Doc (JObj (entry0 600)))
   \<and> py_int rt0 (dict_get_default (entry0 600) (py ''ttl'') (JInt 0)) = Inr 600
   \<and> py_float rt0 (dict_get_default (entry0 600) (py ''fetched_at'') (JInt 0)) = Inr 100
   \<and> (0::int) < 600 \<and> (701::rat) - 100 > of_int 600
   \<and> fst (cache_get rt0 (fs0 600) 701 (py ''c'') (py ''u'')) = None
   \<and> files (snd (cache_get rt0 (fs0 600) 701 (py ''c'') (py ''u''))) = files (fs0 600)
   \<and> files (fs0 0) (cache_path rt0 (py ''c'') (py ''u'')) = Some (Doc (JObj (entry0 0)))
   \<and> py_int rt0 (dict_get_default (entry0 0) (py ''ttl'') (JInt 0)) = Inr 0
   \<and> dict_item (entry0 0) (py ''etag'') = Inr (JStr (py ''W/\"u|v1\"''))
   \<and> dict_item (entry0 0) (py ''payload'') = Inr (JObj [(py ''url'', JStr (py ''u''))])
   \<and> fst (cache_get rt0 (fs0 0) 1000000000 (py ''c'') (py ''u''))
        = Some \<lparr>etag = py ''W/\"u|v1\"'', fetched_at = 100, ttl = 0,
                 payload = JObj [(py ''url'', JStr (py ''u''))]\<rparr>"
proof -
  have p: "cache_path rt0 (py ''c'') (py ''u'') = py ''c/u.json''"
    by (simp add: cache_path_def path_join_def hash_key_def rt0_def py_def)
  have a1: "files (fs0 600) (cache_path rt0 (py ''c'') (py ''u'')) = Some (Doc (JObj (entry0 600)))"
    by (simp add: p fs0_def)
  have a2: "py_int rt0 (dict_get_default (entry0 600) (py ''ttl'') (JInt 0)) = Inr 600"
    by (simp add: entry0_def dict_get_default_def py_def)
  have a3: "py_float rt0 (dict_get_default (entry0 600) (py ''fetched_at'') (JInt 0)) = Inr 100"
    by (simp add: entry0_def dict_get_default_def py_def)
  have b1: "files (fs0 0) (cache_path rt0 (py ''c'') (py ''u'')) = Some (Doc (JObj (entry0 0)))"
    by (simp add: p fs0_def)
  have b2: "py_int rt0 (dict_get_default (entry0 0) (py ''ttl'') (JInt 0)) = Inr 0"
    by (simp add: entry0_def dict_get_default_def py_def)
  have b3: "py_float rt0 (dict_get_default (entry0 0) (py ''fetched_at'') (JInt 0)) = Inr 100"
    by (simp add: entry0_def dict_get_default_def py_def)
  have b4: "dict_item (entry0 0) (py ''etag'') = Inr (JStr (py ''W/\"u|v1\"''))"
    by (simp add: entry0_def dict_item_def py_def)
  have b5: "dict_item (entry0 0) (py ''payload'') = Inr (JObj [(py ''url'', JStr (py ''u''))])"
    by (simp add: entry0_def dict_item_def py_def)
  from cache_get_expiry [OF a1 a2 a3, where now = 701]
    cache_get_expiry [OF b1 b2 b3, where now = 1000000000 and tag = "JStr (py ''W/\"u|v1\"'')"
      and pl = "JObj [(py ''url'', JStr (py ''u''))]"]
  show ?thesis using a1 a2 a3 b1 b2 b3 b4 b5 by simp
qed

text \<open>
  C5. After \<^verbatim>\<open>set(base_dir, url, etag, payload, ttl)\<close> at time \<open>now\<close>, a \<^verbatim>\<open>get(base_dir, url)\<close>
  at a time \<open>now'\<close> at which the entry has not expired returns the entry with the \<^verbatim>\<open>etag\<close>
  and the \<^verbatim>\<open>payload\<close> given to \<^verbatim>\<open>set\<close>, whatever the cache held before.
\<close>

theorem cache_round_trip:
  assumes "\<not> (0 < t \<and> now' - now > of_int t)"
  shows "fst (cache_get U (cache_set U fs now base url tag pl t) now' base url)
           = Some \<lparr>etag = tag, fetched_at = now, ttl = t, payload = pl\<rparr>"
  using assms
  by (simp add: cache_get_def cache_set_def Let_def os_replace_def ensure_dir_def
      read_entry_def dict_get_default_def dict_item_def py_def)

theorem cache_round_trip_witness:
  "\<not> ((0::int) < 600 \<and> (100::rat) - 100 > of_int 600)
   \<and> fst (cache_get rt0 (cache_set rt0 fs_empty 100 (py ''c'') (py ''u'') (py ''W/\"u|v1\"'')
             (JObj [(py ''url'', JStr (py ''u''))]) 600) 100 (py ''c'') (py ''u''))
       = Some \<lparr>etag = py ''W/\"u|v1\"'', fetched_at = 100, ttl = 600,
                payload = JObj [(py ''url'', JStr (py ''u''))]\<rparr>"
  using cache_round_trip [where t = 600 and now = 100 and now' = 100 and U = rt0
      and fs = fs_empty and base = "py ''c''" and url = "py ''u''" and tag = "py ''W/\"u|v1\"''"
      and pl = "JObj [(py ''url'', JStr (py ''u''))]"]
  by simp

subsection \<open>The token buckets\<close>

text \<open>
  The lenient limiter does what the specification says of it: a new client with a positive
  rate \<open>R\<close> and burst \<open>B = max 5 (R div 2)\<close> is admitted \<open>B\<close> times in one instant and
  rejected the next time; \<open>60/R\<close> seconds later it is admitted once and rejected again.
\<close>

lemma allow_same_time:
  assumes "B ip = Some (tok, t0)" "tok \<le> of_int (BURST R)"
  shows "allow R t0 B ip = (tok \<ge> 1, B(ip \<mapsto> (if tok \<ge> 1 then tok - 1 else tok, t0)))"
  using assms by (simp add: allow_def Let_def min_def)

lemma allow_first:
  assumes "B ip = None"
  shows "allow R t0 B ip = allow R t0 (B(ip \<mapsto> (of_int (BURST R), t0))) ip"
  using assms by (simp add: allow_def Let_def)

lemma allow_seq_append:
  "allow_seq R B ip (xs @ ys) =
     (fst (allow_seq R B ip xs) @ fst (allow_seq R (snd (allow_seq R B ip xs)) ip ys),
      snd (allow_seq R (snd (allow_seq R B ip xs)) ip ys))"
  by (induction xs arbitrary: B) (simp_all add: Let_def split: prod.splits)

lemma allow_seq_instant:
  assumes "B ip = Some (of_nat k, t0)" "int k \<le> BURST R"
  shows "fst (allow_seq R B ip (replicate n t0)) = replicate (min n k) True @ replicate (n - k) False
         \<and> snd (allow_seq R B ip (replicate n t0)) ip = Some (of_nat (k - n), t0)"
  using assms
proof (induction n arbitrary: B k)
  case 0
  then show ?case by simp
next
  case (Suc n)
  have le: "(of_nat k :: rat) \<le> of_int (BURST R)"
    using Suc.prems(2) by (metis of_int_le_iff of_int_of_nat_eq)
  show ?case
  proof (cases k)
    case 0
    define B1 where "B1 = B(ip \<mapsto> (0::rat, t0))"
    have a: "allow R t0 B ip = (False, B1)"
      using allow_same_time[of B ip 0 t0 R] Suc.prems le 0 by (simp add: B1_def)
    have "B1 ip = Some (of_nat 0, t0)" by (simp add: B1_def)
    with Suc.IH[of B1 0] Suc.prems 0
    have "fst (allow_seq R B1 ip (replicate n t0)) = replicate n False
         \<and> snd (allow_seq R B1 ip (replicate n t0)) ip = Some (0, t0)" by simp
    with a 0 show ?thesis by (auto simp: Let_def split: prod.splits)
  next
    case (Suc j)
    define B1 where "B1 = B(ip \<mapsto> (of_nat j :: rat, t0))"
    have a: "allow R t0 B ip = (True, B1)"
      using allow_same_time[of B ip "of_nat k" t0 R] Suc.prems le Suc by (simp add: B1_def)
    have b: "B1 ip = Some (of_nat j, t0)" by (simp add: B1_def)
    have "int j \<le> BURST R" using Suc.prems Suc by simp
    with Suc.IH[of B1 j] b
    have "fst (allow_seq R B1 ip (replicate n t0)) = replicate (min n j) True @ replicate (n - j) False
         \<and> snd (allow_seq R B1 ip (replicate n t0)) ip = Some (of_nat (j - n), t0)" by simp
    with a Suc show ?thesis by (auto simp: Let_def split: prod.splits)
  qed
qed

lemma allow_burst_then_wait:
  assumes "R > 0" "B ip = None"
  shows "fst (allow_seq R B ip
                (replicate (nat (BURST R) + 1) t0 @ [t0 + 60 / of_int R, t0 + 60 / of_int R]))
         = replicate (nat (BURST R)) True @ [False, True, False]"
proof -
  define b where "b = nat (BURST R)"
  have b5: "5 \<le> BURST R" by (simp add: BURST_def)
  then have bb: "int b = BURST R" and bpos: "0 < b" by (simp_all add: b_def)
  define B0 where "B0 = B(ip \<mapsto> (of_nat b :: rat, t0))"
  have B0: "B0 ip = Some (of_nat b, t0)" by (simp add: B0_def)
  have tok: "(of_nat b :: rat) = of_int (BURST R)" using bb by (metis of_int_of_nat_eq)
  have first: "allow R t0 B ip = allow R t0 B0 ip"
    using allow_first[of B ip R t0] assms(2) by (simp add: B0_def tok)
  have same: "allow_seq R B ip (replicate (Suc n) t0) = allow_seq R B0 ip (replicate (Suc n) t0)" for n
    by (simp add: first)
  from allow_seq_instant[of B0 ip b t0 R "Suc b"] B0 bb
  have burst: "fst (allow_seq R B0 ip (replicate (Suc b) t0)) = replicate b True @ [False]"
    and st: "snd (allow_seq R B0 ip (replicate (Suc b) t0)) ip = Some (0, t0)"
    by simp_all
  define B1 where "B1 = snd (allow_seq R B0 ip (replicate (Suc b) t0))"
  define d where "d = t0 + 60 / of_int R"
  have r1: "(of_int R / 60) * (d - t0) = (1::rat)" using assms(1) by (simp add: d_def)
  have one: "(1::rat) \<le> of_int (BURST R)" using b5 by simp
  have B1: "B1 ip = Some (0, t0)" unfolding B1_def by (rule st)
  have w1: "allow R d B1 ip = (True, B1(ip \<mapsto> (0, d)))"
    unfolding allow_def Let_def B1 option.case prod.case r1 using one by (simp add: min_def)
  have w2: "allow R d (B1(ip \<mapsto> (0, d))) ip = (False, B1(ip \<mapsto> (0, d)))"
    using b5 by (simp add: allow_def Let_def min_def)
  have tail: "fst (allow_seq R B1 ip [d, d]) = [True, False]"
    by (simp add: w1 w2)
  have "fst (allow_seq R B ip (replicate (Suc b) t0 @ [d, d]))
          = fst (allow_seq R B0 ip (replicate (Suc b) t0)) @ fst (allow_seq R B1 ip [d, d])"
    unfolding allow_seq_append same B1_def by simp
  also have "\<dots> = replicate b True @ [False, True, False]"
    unfolding burst tail by simp
  finally show ?thesis by (simp add: b_def d_def)
qed

text \<open>
  C3 fails for the strict limiter. \<^verbatim>\<open>check_rate_limit\<close> does not use its argument
  \<^verbatim>\<open>limit_per_min\<close>: it refills with the constant rate of 60 per minute. With a limit of 120
  per minute, a new client is admitted 30 times in one instant and rejected the 31st time,
  as stated; after the \<open>60/120\<close> seconds that refill one token at the stated rate the
  bucket holds half a token and the client is rejected again. The lenient limiter with the
  same rate admits the request after the wait.
\<close>

theorem check_rate_limit_ignores_limit:
  "check_rate_limit now B ip lpm = check_rate_limit now B ip 60
   \<and> fst (check_seq Map.empty (py ''10.0.0.1'') 120 (replicate 31 100 @ [100 + 60 / 120]))
       = replicate 30 True @ [False, False]
   \<and> snd (check_seq Map.empty (py ''10.0.0.1'') 120 (replicate 31 100 @ [100 + 60 / 120]))
         (py ''10.0.0.1'') = Some (1 / 2, 201 / 2)
   \<and> fst (allow_seq 120 Map.empty (py ''10.0.0.1'') (replicate 61 100 @ [100 + 60 / 120]))
       = replicate 60 True @ [False, True]"
proof -
  have 1: "check_rate_limit now B ip lpm = check_rate_limit now B ip 60"
    by (simp add: check_rate_limit_def)
  have 2: "fst (check_seq Map.empty (py ''10.0.0.1'') 120 (replicate 31 100 @ [100 + 60 / 120]))
       = replicate 30 True @ [False, False]"
    by code_simp
  have 3: "snd (check_seq Map.empty (py ''10.0.0.1'') 120 (replicate 31 100 @ [100 + 60 / 120]))
         (py ''10.0.0.1'') = Some (1 / 2, 201 / 2)"
    by code_simp
  have 4: "fst (allow_seq 120 Map.empty (py ''10.0.0.1'') (replicate 61 100 @ [100 + 60 / 120]))
       = replicate 60 True @ [False, True]"
    by code_simp
  from 1 2 3 4 show ?thesis by blast
qed

subsection \<open>Sentiment\<close>

lemma round_half_even_bounds:
  assumes "- of_int k \<le> x" "x \<le> of_int k"
  shows "- k \<le> round_half_even x \<and> round_half_even x \<le> k"
proof -
  have f1: "\<lfloor>x\<rfloor> \<le> k" using assms(2) by (simp add: floor_le_iff)
  have f2: "- k \<le> \<lfloor>x\<rfloor>" using assms(1) by (simp add: le_floor_iff)
  have f3: "x - of_int \<lfloor>x\<rfloor> \<ge> 1 / 2 \<Longrightarrow> \<lfloor>x\<rfloor> + 1 \<le> k"
  proof -
    assume "x - of_int \<lfloor>x\<rfloor> \<ge> 1 / 2"
    then have "of_int \<lfloor>x\<rfloor> < x" by simp
    with assms(2) have "(of_int \<lfloor>x\<rfloor> :: rat) < of_int k" by simp
    then show ?thesis by simp
  qed
  show ?thesis
    using f1 f2 f3 by (auto simp: round_half_even_def Let_def)
qed

lemma py_round4_bounds:
  assumes "- (of_int k / 10000) \<le> c" "c \<le> of_int k / 10000"
  shows "\<bar>py_round4 c\<bar> \<le> of_int k / 10000"
proof -
  have "- of_int k \<le> c * 10000" "c * 10000 \<le> of_int k" using assms by simp_all
  from round_half_even_bounds[OF this]
  have "- k \<le> round_half_even (c * 10000)" "round_half_even (c * 10000) \<le> k" by simp_all
  then have "\<bar>round_half_even (c * 10000)\<bar> \<le> k" by simp
  then have "\<bar>of_int (round_half_even (c * 10000)) :: rat\<bar> \<le> of_int k"
    by (metis of_int_abs of_int_le_iff)
  then show ?thesis by (simp add: py_round4_def divide_le_cancel)
qed

lemma py_round4_zero: "py_round4 0 = 0" by (simp add: py_round4_def round_half_even_def)

text \<open>
  C9. For every text and source URL, \<^verbatim>\<open>analyze_sentiment\<close> returns a label among negative,
  neutral and positive and a score of absolute value at most 0.6; for a source URL that
  contains a neutral domain the score is within 0.04 of zero and the label is neutral; on a
  text that is empty after stripping, or when the analyser cannot be built or a step of the
  \<^verbatim>\<open>try\<close> block raises, the result is neutral with score 0.
\<close>

theorem analyze_sentiment_range:
  "\<exists>l x. analyze_sentiment U E text source_url = sentiment_dict l x
      \<and> l \<in> {py ''negative'', py ''neutral'', py ''positive''}
      \<and> \<bar>x\<bar> \<le> 6 / 10
      \<and> (is_neutral_source source_url \<longrightarrow> \<bar>x\<bar> \<le> 4 / 100 \<and> l = py ''neutral'')
      \<and> (str_strip U text = [] \<or> sia E = None \<or> compound_of U E (str_strip U text) = None
            \<longrightarrow> l = py ''neutral'' \<and> x = 0)"
proof (cases "str_strip U text = [] \<or> compound_of U E (str_strip U text) = None")
  case True
  then have "analyze_sentiment U E text source_url = sentiment_dict (py ''neutral'') 0"
    by (auto simp: analyze_sentiment_def Let_def)
  then show ?thesis
    by (intro exI[of _ "py ''neutral''"] exI[of _ 0]) simp
next
  case False
  then obtain c where c: "compound_of U E (str_strip U text) = Some c"
    and ne: "str_strip U text \<noteq> []" by auto
  obtain f where s: "sia E = Some f"
    using c by (auto simp: compound_of_def split: option.splits)
  show ?thesis
  proof (cases "is_neutral_source source_url")
    case True
    define comp where "comp = max (min c (4 / 100)) (- (4 / 100))"
    have b: "- (of_int 400 / 10000) \<le> comp" "comp \<le> of_int 400 / 10000"
      by (simp_all add: comp_def)
    have r: "\<bar>py_round4 comp\<bar> \<le> 4 / 100" using py_round4_bounds[OF b] by simp
    have "analyze_sentiment U E text source_url = sentiment_dict (py ''neutral'') (py_round4 comp)"
    proof -
      have "\<not> comp > 5 / 100" "\<not> comp < - (5 / 100)" using b by simp_all
      then show ?thesis
        unfolding analyze_sentiment_def Let_def comp_def
        by (simp only: c ne True if_True if_False option.case)
    qed
    with r True s c ne show ?thesis
      by (intro exI[of _ "py ''neutral''"] exI[of _ "py_round4 comp"]) simp
  next
    case False
    define comp where "comp = max (min c (6 / 10)) (- (6 / 10))"
    define l where "l = (if comp > 5 / 100 then py ''positive''
                         else if comp < - (5 / 100) then py ''negative'' else py ''neutral'')"
    have b: "- (of_int 6000 / 10000) \<le> comp" "comp \<le> of_int 6000 / 10000"
      by (simp_all add: comp_def)
    have r: "\<bar>py_round4 comp\<bar> \<le> 6 / 10" using py_round4_bounds[OF b] by simp
    have l: "l \<in> {py ''negative'', py ''neutral'', py ''positive''}" by (simp add: l_def)
    have "analyze_sentiment U E text source_url = sentiment_dict l (py_round4 comp)"
      unfolding analyze_sentiment_def Let_def comp_def l_def
      by (simp only: c ne False if_False option.case)
    with r l False s c ne show ?thesis
      by (intro exI[of _ l] exI[of _ "py_round4 comp"]) simp
  qed
qed

text \<open>
  With an analyser that scores every sentence 0.9, a Wikipedia URL gives neutral and 0.04;
  a blank text gives neutral and 0.
\<close>

theorem analyze_sentiment_range_witness:
  "is_neutral_source (Some (py ''https://en.wikipedia.org/wiki/News''))
   \<and> analyze_sentiment rt0 env0 (py ''Great news. Really good!'')
         (Some (py ''https://en.wikipedia.org/wiki/News'')) = sentiment_dict (py ''neutral'') (4 / 100)
   \<and> str_strip rt0 (py ''  '') = []
   \<and> analyze_sentiment rt0 env0 (py ''  '') None = sentiment_dict (py ''neutral'') 0"
  using analyze_sentiment_range [of rt0 env0 "py ''Great news. Really good!''"
      "Some (py ''https://en.wikipedia.org/wiki/News'')"]
    analyze_sentiment_range [of rt0 env0 "py ''  ''" None]
  by (simp add: analyze_sentiment_def compound_of_def sentences_of_def env0_def rt0_def
      str_strip_def isspace_def py_def is_neutral_source_def NEUTRAL_DOMAINS_def
      py_round4_def round_half_even_def Let_def)

subsection \<open>The retry loop\<close>

lemma attempt_once_error:
  "get_error U E (w_gets w) u = Some e \<Longrightarrow>
   attempt_once U E w u = (Inl e, w\<lparr>w_gets := Suc (w_gets w)\<rparr>)"
  by (auto simp: get_error_def attempt_once_def client_get_def split: sum.splits)

lemma fetch_attempts_result:
  "attempt < 3 \<Longrightarrow> attempt_once U E w u = (Inr res, w1) \<Longrightarrow>
   fetch_attempts U E u attempt w = (Inr (Some res), w1)"
  by (subst fetch_attempts.simps) simp

lemma fetch_attempts_propagate:
  "attempt < 3 \<Longrightarrow> attempt_once U E w u = (Inl e, w1) \<Longrightarrow> \<not> is_HTTPError e \<Longrightarrow>
   fetch_attempts U E u attempt w = (Inl e, w1)"
  by (subst fetch_attempts.simps) (cases e; simp)

lemma fetch_attempts_last:
  "attempt_once U E w u = (Inl e, w1) \<Longrightarrow> fetch_attempts U E u 2 w = (Inl e, w1)"
  by (subst fetch_attempts.simps) simp

lemma fetch_attempts_retry:
  "attempt < 2 \<Longrightarrow> attempt_once U E w u = (Inl e, w1) \<Longrightarrow> is_HTTPError e \<Longrightarrow>
   fetch_attempts U E u attempt w =
     fetch_attempts U E u (attempt + 1) (w1\<lparr>w_slept := w_slept w1 @ [(1 / 2) * 2 ^ attempt]\<rparr>)"
  by (subst fetch_attempts.simps) simp

text \<open>The loop never ends without a result or an exception.\<close>

lemma fetch_attempts_not_None:
  "attempt < 3 \<Longrightarrow> fst (fetch_attempts U E u attempt w) \<noteq> Inr None"
proof (induction U E u attempt w rule: fetch_attempts.induct)
  case (1 U E u attempt w)
  obtain r w1 where a: "attempt_once U E w u = (r, w1)" by (cases "attempt_once U E w u")
  show ?case
  proof (cases r)
    case (Inr res)
    with a "1.prems" show ?thesis by (simp add: fetch_attempts.simps[of U E u attempt])
  next
    case (Inl e)
    show ?thesis
    proof (cases "(is_TimeoutException e \<or> is_HTTPError e) \<and> attempt \<noteq> 2")
      case True
      with "1.prems" have "attempt + 1 < 3" by simp
      with "1.IH"[OF _ a[symmetric] Inl] True "1.prems"
      have "fst (fetch_attempts U E u (attempt + 1)
                   (w1\<lparr>w_slept := w_slept w1 @ [(1 / 2) * 2 ^ attempt]\<rparr>)) \<noteq> Inr None"
        by simp
      with a Inl True "1.prems" show ?thesis
        by (simp add: fetch_attempts.simps[of U E u attempt])
    next
      case False
      with a Inl "1.prems" show ?thesis
        by (auto simp add: fetch_attempts.simps[of U E u attempt])
    qed
  qed
qed

lemma fetch_html_not_None: "fst (fetch_html U E w u) \<noteq> Inr None"
  unfolding fetch_html_def by (rule fetch_attempts_not_None) simp

text \<open>
  C6 (as the code has it). An attempt fails with the exception of its GET or with the
  \<^verbatim>\<open>HTTPStatusError\<close> that \<^verbatim>\<open>raise_for_status\<close> raises for a 4xx or 5xx response. The fetcher
  retries on every such exception that is an \<^verbatim>\<open>httpx.HTTPError\<close>: timeouts, transport errors and
  also the status errors. When three attempts in a row fail so, it has issued three GETs,
  slept 0.5 and then 1 second between them, and raises the last exception. An exception
  outside \<^verbatim>\<open>httpx.HTTPError\<close> propagates from the first attempt without a sleep. An attempt
  that succeeds, the first, the second after a sleep of 0.5 seconds or the third after
  sleeps of 0.5 and 1 second, gives the result.
\<close>

theorem fetch_html_retries:
  "(get_error U E (w_gets w) u = Some e0 \<and> is_HTTPError e0
      \<and> get_error U E (w_gets w + 1) u = Some e1 \<and> is_HTTPError e1
      \<and> get_error U E (w_gets w + 2) u = Some e2
    \<longrightarrow> fetch_html U E w u =
          (Inl e2, w\<lparr>w_gets := w_gets w + 3, w_slept := w_slept w @ [1 / 2, 1]\<rparr>))
   \<and> (get_error U E (w_gets w) u = Some e0 \<and> \<not> is_HTTPError e0
    \<longrightarrow> fetch_html U E w u = (Inl e0, w\<lparr>w_gets := w_gets w + 1\<rparr>))
   \<and> (attempt_once U E w u = (Inr res, w') \<longrightarrow> fetch_html U E w u = (Inr (Some res), w'))
   \<and> (get_error U E (w_gets w) u = Some e0 \<and> is_HTTPError e0
      \<and> attempt_once U E (w\<lparr>w_gets := w_gets w + 1, w_slept := w_slept w @ [1 / 2]\<rparr>) u
           = (Inr res, w')
    \<longrightarrow> fetch_html U E w u = (Inr (Some res), w'))
   \<and> (get_error U E (w_gets w) u = Some e0 \<and> is_HTTPError e0
      \<and> get_error U E (w_gets w + 1) u = Some e1 \<and> is_HTTPError e1
      \<and> attempt_once U E (w\<lparr>w_gets := w_gets w + 2, w_slept := w_slept w @ [1 / 2, 1]\<rparr>) u
           = (Inr res, w')
    \<longrightarrow> fetch_html U E w u = (Inr (Some res), w'))
   \<and> (net E n u = Inr r \<and> 400 \<le> r_status r \<and> r_status r \<le> 599
    \<longrightarrow> get_error U E n u = Some (HTTPStatusError (r_status r))
        \<and> is_HTTPError (HTTPStatusError (r_status r)))
   \<and> (net E n u = Inl e \<longrightarrow> get_error U E n u = Some (Httpx e)
        \<and> is_HTTPError (Httpx e) = (e \<noteq> InvalidURL))"
proof (intro conjI impI)
  assume a: "get_error U E (w_gets w) u = Some e0 \<and> is_HTTPError e0
      \<and> get_error U E (w_gets w + 1) u = Some e1 \<and> is_HTTPError e1
      \<and> get_error U E (w_gets w + 2) u = Some e2"
  define w1 where "w1 = w\<lparr>w_gets := Suc (w_gets w)\<rparr>"
  define w1' where "w1' = w1\<lparr>w_slept := w_slept w1 @ [(1 / 2) * 2 ^ 0]\<rparr>"
  define w2 where "w2 = w1'\<lparr>w_gets := Suc (w_gets w1')\<rparr>"
  define w2' where "w2' = w2\<lparr>w_slept := w_slept w2 @ [(1 / 2) * 2 ^ 1]\<rparr>"
  define w3 where "w3 = w2'\<lparr>w_gets := Suc (w_gets w2')\<rparr>"
  have g1: "w_gets w1' = w_gets w + 1" by (simp add: w1'_def w1_def)
  have g2: "w_gets w2' = w_gets w + 2" by (simp add: w2'_def w2_def g1)
  have s0: "attempt_once U E w u = (Inl e0, w1)"
    using a by (simp add: attempt_once_error w1_def)
  have s1: "attempt_once U E w1' u = (Inl e1, w2)"
    using a g1 by (simp add: attempt_once_error w2_def)
  have s2: "attempt_once U E w2' u = (Inl e2, w3)"
    using a g2 by (simp add: attempt_once_error w3_def)
  have "fetch_html U E w u = fetch_attempts U E u (0 + 1) w1'"
    unfolding fetch_html_def w1'_def using a by (intro fetch_attempts_retry[OF _ s0]) simp_all
  also have "\<dots> = fetch_attempts U E u (1 + 1) w2'"
    unfolding w2'_def using a fetch_attempts_retry[OF _ s1, where attempt = 1] by simp
  also have "\<dots> = (Inl e2, w3)"
    using fetch_attempts_last[OF s2] by (simp add: numeral_2_eq_2)
  also have "w3 = w\<lparr>w_gets := w_gets w + 3, w_slept := w_slept w @ [1 / 2, 1]\<rparr>"
    by (simp add: w3_def w2'_def w2_def w1'_def w1_def)
  finally show "fetch_html U E w u =
          (Inl e2, w\<lparr>w_gets := w_gets w + 3, w_slept := w_slept w @ [1 / 2, 1]\<rparr>)" .
next
  assume a: "get_error U E (w_gets w) u = Some e0 \<and> \<not> is_HTTPError e0"
  then have "attempt_once U E w u = (Inl e0, w\<lparr>w_gets := Suc (w_gets w)\<rparr>)"
    by (simp add: attempt_once_error)
  from fetch_attempts_propagate[OF _ this] a
  show "fetch_html U E w u = (Inl e0, w\<lparr>w_gets := w_gets w + 1\<rparr>)"
    by (simp add: fetch_html_def)
next
  assume "attempt_once U E w u = (Inr res, w')"
  from fetch_attempts_result[OF _ this]
  show "fetch_html U E w u = (Inr (Some res), w')" by (simp add: fetch_html_def)
next
  assume a: "get_error U E (w_gets w) u = Some e0 \<and> is_HTTPError e0
      \<and> attempt_once U E (w\<lparr>w_gets := w_gets w + 1, w_slept := w_slept w @ [1 / 2]\<rparr>) u
           = (Inr res, w')"
  then have s0: "attempt_once U E w u = (Inl e0, w\<lparr>w_gets := Suc (w_gets w)\<rparr>)"
    by (simp add: attempt_once_error)
  have "fetch_html U E w u
          = fetch_attempts U E u (0 + 1) (w\<lparr>w_gets := w_gets w + 1, w_slept := w_slept w @ [1 / 2]\<rparr>)"
    unfolding fetch_html_def using a fetch_attempts_retry[OF _ s0, where attempt = 0] by simp
  also have "\<dots> = (Inr (Some res), w')"
    using a by (intro fetch_attempts_result) simp_all
  finally show "fetch_html U E w u = (Inr (Some res), w')" .
next
  assume a: "get_error U E (w_gets w) u = Some e0 \<and> is_HTTPError e0
      \<and> get_error U E (w_gets w + 1) u = Some e1 \<and> is_HTTPError e1
      \<and> attempt_once U E (w\<lparr>w_gets := w_gets w + 2, w_slept := w_slept w @ [1 / 2, 1]\<rparr>) u
           = (Inr res, w')"
  define w1 where "w1 = w\<lparr>w_gets := Suc (w_gets w)\<rparr>"
  define w1' where "w1' = w1\<lparr>w_slept := w_slept w1 @ [(1 / 2) * 2 ^ 0]\<rparr>"
  define w2 where "w2 = w1'\<lparr>w_gets := Suc (w_gets w1')\<rparr>"
  define w2' where "w2' = w2\<lparr>w_slept := w_slept w2 @ [(1 / 2) * 2 ^ 1]\<rparr>"
  have g1: "w_gets w1' = w_gets w + 1" by (simp add: w1'_def w1_def)
  have s0: "attempt_once U E w u = (Inl e0, w1)"
    using a by (simp add: attempt_once_error w1_def)
  have s1: "attempt_once U E w1' u = (Inl e1, w2)"
    using a g1 by (simp add: attempt_once_error w2_def)
  have w2': "w2' = w\<lparr>w_gets := w_gets w + 2, w_slept := w_slept w @ [1 / 2, 1]\<rparr>"
    by (simp add: w2'_def w2_def w1'_def w1_def)
  have "fetch_html U E w u = fetch_attempts U E u (0 + 1) w1'"
    unfolding fetch_html_def w1'_def using a by (intro fetch_attempts_retry[OF _ s0]) simp_all
  also have "\<dots> = fetch_attempts U E u (1 + 1) w2'"
    unfolding w2'_def using a fetch_attempts_retry[OF _ s1, where attempt = 1] by simp
  also have "\<dots> = (Inr (Some res), w')"
    using a unfolding w2' by (intro fetch_attempts_result) simp_all
  finally show "fetch_html U E w u = (Inr (Some res), w')" .
qed (auto simp: get_error_def raise_for_status_def)

text \<open>
  A timeout, then a 503, then a transport error: three GETs, sleeps of 0.5 and 1 second,
  and the transport error is raised. An \<^verbatim>\<open>InvalidURL\<close> propagates after one GET.
\<close>

theorem fetch_html_retries_witness:
  "get_error rt0 env_flaky 0 (py ''http://e.org/a'') = Some (Httpx TimeoutException)
   \<and> get_error rt0 env_flaky 1 (py ''http://e.org/a'') = Some (HTTPStatusError 503)
   \<and> get_error rt0 env_flaky 2 (py ''http://e.org/a'') = Some (Httpx TransportError)
   \<and> fetch_html rt0 env_flaky (world0 fs_empty) (py ''http://e.org/a'')
       = (Inl (Httpx TransportError),
          \<lparr>w_fs = fs_empty, w_gets = 3, w_slept = [1 / 2, 1], w_ticks = 0\<rparr>)
   \<and> get_error rt0 env_invalid 0 (py ''http://e.org/a'') = Some (Httpx InvalidURL)
   \<and> fetch_html rt0 env_invalid (world0 fs_empty) (py ''http://e.org/a'')
       = (Inl (Httpx InvalidURL),
          \<lparr>w_fs = fs_empty, w_gets = 1, w_slept = [], w_ticks = 0\<rparr>)"
  using fetch_html_retries [where E = env_flaky and w = "world0 fs_empty"
      and u = "py ''http://e.org/a''" and U = rt0 and ?e0.0 = "Httpx TimeoutException"
      and ?e1.0 = "HTTPStatusError 503" and ?e2.0 = "Httpx TransportError"]
    fetch_html_retries [where E = env_invalid and w = "world0 fs_empty"
      and u = "py ''http://e.org/a''" and U = rt0 and ?e0.0 = "Httpx InvalidURL"]
  by (simp add: get_error_def env_flaky_def env_invalid_def env0_def resp0_def world0_def
      raise_for_status_def)

text \<open>
  C6 as the specification states it fails: when every GET is answered with the status 503,
  the fetcher does not raise on the first attempt; it issues three GETs and sleeps twice
  before it raises the status error.
\<close>

theorem fetch_html_status_counterexample:
  "net env503 0 (py ''http://e.org/a'') = Inr (resp0 503 [])
   \<and> fetch_html rt0 env503 (world0 fs_empty) (py ''http://e.org/a'')
       = (Inl (HTTPStatusError 503),
          \<lparr>w_fs = fs_empty, w_gets = 3, w_slept = [1 / 2, 1], w_ticks = 0\<rparr>)
   \<and> fetch_html rt0 env503 (world0 fs_empty) (py ''http://e.org/a'')
       \<noteq> (Inl (HTTPStatusError 503),
          \<lparr>w_fs = fs_empty, w_gets = 1, w_slept = [], w_ticks = 0\<rparr>)"
  by (simp add: fetch_html_def fetch_attempts.simps attempt_once_def client_get_def
      raise_for_status_def env503_def env0_def resp0_def world0_def)

subsection \<open>The exceptions of the pipeline\<close>

lemma fetch_attempts_error:
  "fetch_attempts U E u attempt w = (Inl e, w') \<Longrightarrow> (\<exists>x. e = Httpx x) \<or> (\<exists>c. e = HTTPStatusError c)"
proof (induction U E u attempt w rule: fetch_attempts.induct)
  case (1 U E u attempt w)
  show ?case
  proof (cases "attempt \<ge> 3")
    case True
    with "1.prems" show ?thesis by (simp add: fetch_attempts.simps)
  next
    case False
    obtain r w1 where a: "attempt_once U E w u = (r, w1)" by (cases "attempt_once U E w u")
    have ae: "\<And>e0. r = Inl e0 \<Longrightarrow> (\<exists>x. e0 = Httpx x) \<or> (\<exists>c. e0 = HTTPStatusError c)"
      using a
      by (auto simp: attempt_once_def client_get_def raise_for_status_def Let_def
          split: sum.splits if_splits prod.splits)
    show ?thesis
    proof (cases r)
      case (Inr res)
      with "1.prems" a False show ?thesis by (simp add: fetch_attempts.simps)
    next
      case (Inl e0)
      show ?thesis
      proof (cases "(is_TimeoutException e0 \<or> is_HTTPError e0) \<and> attempt \<noteq> 2")
        case True
        with "1.prems" a False Inl
        have "fetch_attempts U E u (attempt + 1)
                (w1\<lparr>w_slept := w_slept w1 @ [(1 / 2) * 2 ^ attempt]\<rparr>) = (Inl e, w')"
          by (simp add: fetch_attempts.simps[of U E u attempt])
        from "1.IH"[OF False a[symmetric] Inl _ _ this] True show ?thesis by simp
      next
        case F2: False
        with "1.prems" a False Inl have "e = e0"
          by (auto simp add: fetch_attempts.simps[of U E u attempt] split: if_splits)
        with ae[OF Inl] show ?thesis by simp
      qed
    qed
  qed
qed

lemma merge_extraction_error:
  "merge_extraction U E primary meta html u = Inl e \<Longrightarrow> e = AttributeError"
  by (auto simp: merge_extraction_def Let_def split: json.splits if_splits)

lemma normalize_value_error:
  "normalize_value U v = Inl e \<Longrightarrow> e = AttributeError"
  by (auto simp: normalize_value_def split: json.splits if_splits)

lemma fetch_html_error:
  "fetch_html U E w u = (Inl e, w') \<Longrightarrow> (\<exists>x. e = Httpx x) \<or> (\<exists>c. e = HTTPStatusError c)"
  unfolding fetch_html_def by (rule fetch_attempts_error)

lemma core_parse_error_status:
  assumes "core_parse U E C w u = (Inl e, w')"
  shows "status_of (Inl e) \<in> {415, 422, 500, 504}"
proof -
  have "(\<exists>x. e = Httpx x) \<or> (\<exists>c. e = HTTPStatusError c) \<or> e = TypeError \<or> e = AttributeError
        \<or> (\<exists>d. e = HTTPException 415 d) \<or> (\<exists>d. e = HTTPException 422 d)"
    using assms
    by (auto simp: core_parse_def Let_def
        split: prod.splits sum.splits option.splits if_splits
        dest: fetch_html_error merge_extraction_error normalize_value_error)
  then show ?thesis by auto
qed

subsection \<open>The word count of a record\<close>

lemma build_record_text:
  "dict_get (fst (build_record U E C w1 start u html data used text)) (py ''text'') = JStr text
   \<and> dict_get (fst (build_record U E C w1 start u html data used text)) (py ''word_count'')
       = JInt (int (word_count U text))"
  by (simp add: build_record_def Let_def dict_get_def py_def split: prod.splits)

lemma core_parse_success:
  assumes "fst (core_parse U E C w u) = Inr record0"
  shows "\<exists>w1 start html data used text.
           record0 = fst (build_record U E C w1 start u html data used text)
           \<and> \<not> word_count U text < 10"
proof -
  obtain st w0 where r: "read_perf E w = (st, w0)" by (cases "read_perf E w")
  obtain x w1 where f: "fetch_html U E w0 u = (x, w1)" by (cases "fetch_html U E w0 u")
  from assms obtain html hdrs where x: "x = Inr (Some (html, hdrs))"
    by (cases x) (auto simp: core_parse_def r f split: option.splits)
  from assms obtain data used where
    m: "merge_extraction U E (extract_trafilatura E html u) (extract_meta_bs4 E html) html u
          = Inr (data, used)"
    by (cases "merge_extraction U E (extract_trafilatura E html u) (extract_meta_bs4 E html) html u")
       (auto simp: core_parse_def r f x Let_def split: if_splits)
  from assms obtain nt where
    n: "normalize_value U (dict_get_default data (py ''text'') (JStr [])) = Inr nt"
    by (cases "normalize_value U (dict_get_default data (py ''text'') (JStr []))")
       (auto simp: core_parse_def r f x m Let_def split: if_splits)
  from assms have "\<not> word_count U (clean_citations_and_spaces U nt) < 10
      \<and> record0 = fst (build_record U E C w1 st u html data used (clean_citations_and_spaces U nt))"
    by (auto simp: core_parse_def r f x m n Let_def split: if_splits prod.splits)
  then show ?thesis by blast
qed

text \<open>
  C2. Every record that \<^verbatim>\<open>core_parse\<close> returns has a body text of at least 10 words, and its
  \<^verbatim>\<open>word_count\<close> is the number of words of that text. When the page was fetched as HTML and
  the extracted text, normalised and cleaned, has fewer than 10 words, \<^verbatim>\<open>core_parse\<close> raises
  the \<^verbatim>\<open>HTTPException\<close> with status 422; \<^verbatim>\<open>/v1/parse\<close> passes the exception of
  \<^verbatim>\<open>core_parse\<close> on when the cache has no entry for the URL.
\<close>

theorem core_parse_min_words:
  "(fst (core_parse U E C w u) = Inr record0 \<longrightarrow>
      (\<exists>t. dict_get record0 (py ''text'') = JStr t \<and> 10 \<le> word_count U t
           \<and> dict_get record0 (py ''word_count'') = JInt (int (word_count U t))))
   \<and> (fst (fetch_html U E (snd (read_perf E w)) u) = Inr (Some (html, hdrs))
       \<and> str_contains (py ''text/html'')
            (ulower U (case map_of hdrs (py ''content-type'') of None \<Rightarrow> [] | Some v \<Rightarrow> v))
       \<and> merge_extraction U E (extract_trafilatura E html u) (extract_meta_bs4 E html) html u
            = Inr (data, used)
       \<and> normalize_value U (dict_get_default data (py ''text'') (JStr [])) = Inr nt
       \<and> word_count U (clean_citations_and_spaces U nt) < 10
      \<longrightarrow> fst (core_parse U E C w u)
            = Inl (HTTPException 422 (py ''parse_failed: too little text extracted''))
          \<and> status_of (Inl (HTTPException 422 (py ''parse_failed: too little text extracted''))) = 422)
   \<and> (inm \<noteq> Some (etag_for U u) \<and> fst (cache_lookup U E C w u) = None
       \<and> fst (core_parse U E C (snd (cache_lookup U E C w u)) u) = Inl e
      \<longrightarrow> fst (parse U E C w u inm) = Inl e)"
proof (intro conjI impI)
  assume "fst (core_parse U E C w u) = Inr record0"
  from core_parse_success[OF this] obtain w1 st0 h0 d0 us0 tx where
    "record0 = fst (build_record U E C w1 st0 u h0 d0 us0 tx)"
    "\<not> word_count U tx < 10" by blast
  with build_record_text[of U E C w1 st0 u h0 d0 us0 tx]
  show "\<exists>t. dict_get record0 (py ''text'') = JStr t \<and> 10 \<le> word_count U t
           \<and> dict_get record0 (py ''word_count'') = JInt (int (word_count U t))"
    by (intro exI[of _ tx]) simp
next
  assume a: "fst (fetch_html U E (snd (read_perf E w)) u) = Inr (Some (html, hdrs))
       \<and> str_contains (py ''text/html'')
            (ulower U (case map_of hdrs (py ''content-type'') of None \<Rightarrow> [] | Some v \<Rightarrow> v))
       \<and> merge_extraction U E (extract_trafilatura E html u) (extract_meta_bs4 E html) html u
            = Inr (data, used)
       \<and> normalize_value U (dict_get_default data (py ''text'') (JStr [])) = Inr nt
       \<and> word_count U (clean_citations_and_spaces U nt) < 10"
  obtain st w0 where r: "read_perf E w = (st, w0)" by (cases "read_perf E w")
  obtain w1 where f: "fetch_html U E w0 u = (Inr (Some (html, hdrs)), w1)"
    using a r by (cases "fetch_html U E w0 u") simp
  show "fst (core_parse U E C w u)
            = Inl (HTTPException 422 (py ''parse_failed: too little text extracted''))"
    using a by (simp add: core_parse_def r f)
next
  assume a: "inm \<noteq> Some (etag_for U u) \<and> fst (cache_lookup U E C w u) = None
       \<and> fst (core_parse U E C (snd (cache_lookup U E C w u)) u) = Inl e"
  obtain c w2 where l: "cache_lookup U E C w u = (c, w2)" by (cases "cache_lookup U E C w u")
  obtain x w3 where p: "core_parse U E C w2 u = (x, w3)" by (cases "core_parse U E C w2 u")
  from a l p show "fst (parse U E C w u inm) = Inl e"
    by (simp add: parse_def)
qed simp

text \<open>
  A page whose text is twelve words gives a record with a word count of 12; a page whose
  text is \<^verbatim>\<open>too short\<close> gives the 422 error, also through \<^verbatim>\<open>/v1/parse\<close>.
\<close>

theorem core_parse_min_words_witness:
  "(\<exists>r. fst (core_parse rt0 (env_page (py ''a b c d e f g h i j k l'')) config0
               (world0 fs_empty) (py ''u'')) = Inr r
        \<and> dict_get r (py ''text'') = JStr (py ''a b c d e f g h i j k l'')
        \<and> dict_get r (py ''word_count'') = JInt 12)
   \<and> word_count rt0 (py ''a b c d e f g h i j k l'') = 12
   \<and> fst (fetch_html rt0 (env_page (py ''too short''))
             (snd (read_perf (env_page (py ''too short'')) (world0 fs_empty))) (py ''u''))
       = Inr (Some (py ''<html></html>'', [(py ''content-type'', py ''text/html; charset=utf-8'')]))
   \<and> word_count rt0 (clean_citations_and_spaces rt0 (py ''too short'')) = 2
   \<and> fst (core_parse rt0 (env_page (py ''too short'')) config0 (world0 fs_empty) (py ''u''))
       = Inl (HTTPException 422 (py ''parse_failed: too little text extracted''))
   \<and> fst (parse rt0 (env_page (py ''too short'')) config0 (world0 fs_empty) (py ''u'') None)
       = Inl (HTTPException 422 (py ''parse_failed: too little text extracted''))"
proof -
  let ?E = "env_page (py ''too short'')"
  let ?h = "py ''<html></html>''"
  let ?hd = "[(py ''content-type'', py ''text/html; charset=utf-8'')]"
  let ?d = "[(py ''text'', JStr (py ''too short''))]"
  have w12: "word_count rt0 (py ''a b c d e f g h i j k l'') = 12" by code_simp
  have ok: "\<exists>r. fst (core_parse rt0 (env_page (py ''a b c d e f g h i j k l'')) config0
               (world0 fs_empty) (py ''u'')) = Inr r"
  proof -
    have "(case fst (core_parse rt0 (env_page (py ''a b c d e f g h i j k l'')) config0
               (world0 fs_empty) (py ''u'')) of Inl e \<Rightarrow> False | Inr r \<Rightarrow> True) = True"
      by code_simp
    then show ?thesis by (simp split: sum.splits)
  qed
  then obtain r where r: "fst (core_parse rt0 (env_page (py ''a b c d e f g h i j k l'')) config0
               (world0 fs_empty) (py ''u'')) = Inr r" ..
  have t: "dict_get r (py ''text'') = JStr (py ''a b c d e f g h i j k l'')"
  proof -
    have "dict_get (case fst (core_parse rt0 (env_page (py ''a b c d e f g h i j k l''))
              config0 (world0 fs_empty) (py ''u'')) of Inl e \<Rightarrow> [] | Inr r \<Rightarrow> r) (py ''text'')
          = JStr (py ''a b c d e f g h i j k l'')"
      by code_simp
    then show ?thesis by (simp add: r)
  qed
  have a1: "fst (fetch_html rt0 ?E (snd (read_perf ?E (world0 fs_empty))) (py ''u''))
             = Inr (Some (?h, ?hd))" by code_simp
  have a2: "str_contains (py ''text/html'')
              (ulower rt0 (case map_of ?hd (py ''content-type'') of None \<Rightarrow> [] | Some v \<Rightarrow> v))"
    by code_simp
  have a3: "merge_extraction rt0 ?E (extract_trafilatura ?E ?h (py ''u''))
              (extract_meta_bs4 ?E ?h) ?h (py ''u'') = Inr (?d, True)" by code_simp
  have a4: "normalize_value rt0 (dict_get_default ?d (py ''text'') (JStr [])) = Inr (py ''too short'')"
    by code_simp
  have a5: "word_count rt0 (clean_citations_and_spaces rt0 (py ''too short'')) = 2" by code_simp
  have a6: "fst (cache_lookup rt0 ?E config0 (world0 fs_empty) (py ''u'')) = None" by code_simp
  have a7: "fst (core_parse rt0 ?E config0
                  (snd (cache_lookup rt0 ?E config0 (world0 fs_empty) (py ''u''))) (py ''u''))
            = Inl (HTTPException 422 (py ''parse_failed: too little text extracted''))"
    by code_simp
  from core_parse_min_words [where U = rt0 and E = "env_page (py ''a b c d e f g h i j k l'')"
      and C = config0 and w = "world0 fs_empty" and u = "py ''u''" and ?record0.0 = r]
    core_parse_min_words [where U = rt0 and E = ?E and C = config0 and w = "world0 fs_empty"
      and u = "py ''u''" and html = ?h and hdrs = ?hd and data = ?d and used = True
      and nt = "py ''too short''" and inm = None
      and e = "HTTPException 422 (py ''parse_failed: too little text extracted'')"]
  show ?thesis using r t w12 a1 a2 a3 a4 a5 a6 a7 by auto
qed

subsection \<open>The parse endpoint\<close>

lemma cache_lookup_fst:
  "fst (cache_lookup U E C w u) = fst (cache_get U (w_fs w) (clock E (w_ticks w)) (CACHE_DIR C) u)"
  by (simp add: cache_lookup_def read_clock_def Let_def split: prod.splits)

text \<open>
  C1. The response of \<^verbatim>\<open>/v1/parse\<close> has the status 304 if and only if the \<^verbatim>\<open>If-None-Match\<close>
  header equals the entity tag of the URL and the cache, read at the time of the request,
  returns an entry for the URL whose stored tag is that tag; such a response has no body.
  The entity tag depends on the URL (and the parser version) only: the \<^verbatim>\<open>ETag\<close> header of
  every JSON response for a URL is the tag of the URL, so two requests for the same URL, in
  whatever state and with whatever header, carry the same tag.
\<close>

theorem parse_not_modified:
  "(status_of (fst (parse U E C w u inm)) = 304 \<longleftrightarrow>
      inm = Some (etag_for U u)
      \<and> (\<exists>c. fst (cache_get U (w_fs w) (clock E (w_ticks w)) (CACHE_DIR C) u) = Some c
             \<and> etag c = etag_for U u))
   \<and> (status_of (fst (parse U E C w u inm)) = 304 \<longrightarrow>
        (\<exists>r. fst (parse U E C w u inm) = Inr r \<and> body_of r = None))
   \<and> (fst (parse U E C w u inm) = Inr (JSONResponse s b hs)
        \<and> fst (parse U E C w' u inm') = Inr (JSONResponse s' b' hs')
      \<longrightarrow> map_of hs (py ''ETag'') = Some (etag_for U u)
          \<and> map_of hs' (py ''ETag'') = map_of hs (py ''ETag''))"
proof -
  have json_tag: "map_of hs0 (py ''ETag'') = Some (etag_for U u) \<and> s0 = 200"
    if "fst (parse U E C w0 u inm0) = Inr (JSONResponse s0 b0 hs0)" for w0 inm0 s0 b0 hs0
    using that
    by (auto simp: parse_def Let_def cache_headers_def
        split: prod.splits option.splits if_splits sum.splits)
  have resp: "s0 = 304 \<and> inm0 = Some (etag_for U u)
       \<and> (\<exists>c. fst (cache_lookup U E C w0 u) = Some c \<and> etag c = etag_for U u)"
    if "fst (parse U E C w0 u inm0) = Inr (Response s0)" for w0 inm0 s0
    using that
    by (auto simp: parse_def Let_def
        split: prod.splits option.splits if_splits sum.splits)
  have err: "status_of (Inl e) \<noteq> 304" if "fst (parse U E C w u inm) = Inl e" for e
  proof -
    from that obtain w2 w3 where "core_parse U E C w2 u = (Inl e, w3)"
      by (auto simp: parse_def Let_def
          split: prod.splits option.splits if_splits sum.splits)
    from core_parse_error_status[OF this] show ?thesis by auto
  qed
  have hit: "fst (parse U E C w u inm) = Inr (Response 304)"
    if "inm = Some (etag_for U u)" "fst (cache_lookup U E C w u) = Some c" "etag c = etag_for U u" for c
    using that
    by (auto simp: parse_def Let_def split: prod.splits option.splits)
  show ?thesis
  proof (intro conjI impI)
    show "status_of (fst (parse U E C w u inm)) = 304 \<longleftrightarrow>
      inm = Some (etag_for U u)
      \<and> (\<exists>c. fst (cache_get U (w_fs w) (clock E (w_ticks w)) (CACHE_DIR C) u) = Some c
             \<and> etag c = etag_for U u)"
    proof
      assume st: "status_of (fst (parse U E C w u inm)) = 304"
      show "inm = Some (etag_for U u)
      \<and> (\<exists>c. fst (cache_get U (w_fs w) (clock E (w_ticks w)) (CACHE_DIR C) u) = Some c
             \<and> etag c = etag_for U u)"
      proof (cases "fst (parse U E C w u inm)")
        case (Inl e)
        with err[OF Inl] st show ?thesis by simp
      next
        case (Inr r)
        show ?thesis
        proof (cases r)
          case (Response s0)
          with Inr resp[of w inm s0] show ?thesis by (simp add: cache_lookup_fst)
        next
          case (JSONResponse s0 b0 hs0)
          with Inr json_tag[of w inm s0 b0 hs0] st show ?thesis by simp
        qed
      qed
    next
      assume "inm = Some (etag_for U u)
      \<and> (\<exists>c. fst (cache_get U (w_fs w) (clock E (w_ticks w)) (CACHE_DIR C) u) = Some c
             \<and> etag c = etag_for U u)"
      then show "status_of (fst (parse U E C w u inm)) = 304"
        using hit by (auto simp: cache_lookup_fst)
    qed
  next
    assume st: "status_of (fst (parse U E C w u inm)) = 304"
    show "\<exists>r. fst (parse U E C w u inm) = Inr r \<and> body_of r = None"
    proof (cases "fst (parse U E C w u inm)")
      case (Inl e)
      with err[OF Inl] st show ?thesis by simp
    next
      case (Inr r)
      show ?thesis
      proof (cases r)
        case (Response s0)
        with Inr show ?thesis by simp
      next
        case (JSONResponse s0 b0 hs0)
        with Inr json_tag[of w inm s0 b0 hs0] st show ?thesis by simp
      qed
    qed
  next
    assume a: "fst (parse U E C w u inm) = Inr (JSONResponse s b hs)
        \<and> fst (parse U E C w' u inm') = Inr (JSONResponse s' b' hs')"
    with json_tag[of w inm s b hs] json_tag[of w' inm' s' b' hs']
    show "map_of hs (py ''ETag'') = Some (etag_for U u)"
      and "map_of hs' (py ''ETag'') = map_of hs (py ''ETag'')" by simp_all
  qed
qed

text \<open>
  With an entry for the URL written at time 100 with a \<^verbatim>\<open>ttl\<close> of 600 and read at time 100,
  a request with the tag gets 304 and a request without it gets 200 with the same tag.
\<close>

theorem parse_not_modified_witness:
  "etag_for rt0 (py ''u'') = py ''W/\"u|v1\"''
   \<and> (\<exists>c. fst (cache_get rt0 (w_fs (world0 (fs0 600))) (clock env0 (w_ticks (world0 (fs0 600))))
                  (CACHE_DIR config0) (py ''u'')) = Some c
          \<and> etag c = py ''W/\"u|v1\"'')
   \<and> fst (parse rt0 env0 config0 (world0 (fs0 600)) (py ''u'') (Some (py ''W/\"u|v1\"'')))
       = Inr (Response 304)
   \<and> status_of (fst (parse rt0 env0 config0 (world0 (fs0 600)) (py ''u'') None)) = 200
   \<and> (\<exists>b hs. fst (parse rt0 env0 config0 (world0 (fs0 600)) (py ''u'') None)
                  = Inr (JSONResponse 200 b hs)
          \<and> map_of hs (py ''ETag'') = Some (py ''W/\"u|v1\"''))"
proof -
  have e: "etag_for rt0 (py ''u'') = py ''W/\"u|v1\"''"
    by (simp add: etag_for_def rt0_def PARSER_VERSION_def py_def)
  have g: "fst (cache_get rt0 (w_fs (world0 (fs0 600))) (clock env0 (w_ticks (world0 (fs0 600))))
                  (CACHE_DIR config0) (py ''u''))
           = Some \<lparr>etag = py ''W/\"u|v1\"'', fetched_at = 100, ttl = 600,
                   payload = JObj [(py ''url'', JStr (py ''u''))]\<rparr>"
    by code_simp
  have p1: "fst (parse rt0 env0 config0 (world0 (fs0 600)) (py ''u'') (Some (py ''W/\"u|v1\"'')))
       = Inr (Response 304)"
    by code_simp
  have p2: "fst (parse rt0 env0 config0 (world0 (fs0 600)) (py ''u'') None)
       = Inr (JSONResponse 200 (JObj [(py ''url'', JStr (py ''u''))])
               (cache_headers rt0 (py ''W/\"u|v1\"'') 600))"
    by code_simp
  have h: "map_of (cache_headers rt0 (py ''W/\"u|v1\"'') 600) (py ''ETag'') = Some (py ''W/\"u|v1\"'')"
    by (simp add: cache_headers_def)
  from parse_not_modified [where U = rt0 and E = env0 and C = config0
      and w = "world0 (fs0 600)" and u = "py ''u''" and inm = "Some (py ''W/\"u|v1\"'')"]
  show ?thesis using e g p1 p2 h by simp
qed

subsection \<open>The projection endpoints\<close>

text \<open>
  C10. When the \<^verbatim>\<open>If-None-Match\<close> header of a request to \<^verbatim>\<open>/v1/metadata\<close>,
  \<^verbatim>\<open>/v1/summary\<close> or \<^verbatim>\<open>/v1/preview\<close> equals the entity tag of the URL with the suffix of
  the endpoint, the endpoint responds 304 and leaves the state of the process as it was: no
  clock is read, no cache entry is looked up and no GET is issued, whatever the cache holds.
\<close>

theorem projection_endpoints_not_modified:
  "(inm = Some (etag_for U u @ py ''-meta'') \<longrightarrow> metadata U E C w u inm = (Inr (Response 304), w))
   \<and> (inm = Some (etag_for U u @ py ''-sum'') \<longrightarrow> summary U E C w u inm = (Inr (Response 304), w))
   \<and> (inm = Some (etag_for U u @ py ''-prev'') \<longrightarrow> preview U E C w u inm = (Inr (Response 304), w))"
  by (simp add: metadata_def summary_def preview_def projection_endpoint_def)

text \<open>With an empty cache directory, the three suffixed tags of a URL give 304.\<close>

theorem projection_endpoints_not_modified_witness:
  "etag_for rt0 (py ''u'') @ py ''-meta'' = py ''W/\"u|v1\"-meta''
   \<and> files (w_fs (world0 fs_empty)) = Map.empty
   \<and> metadata rt0 env0 config0 (world0 fs_empty) (py ''u'') (Some (py ''W/\"u|v1\"-meta''))
       = (Inr (Response 304), world0 fs_empty)
   \<and> summary rt0 env0 config0 (world0 fs_empty) (py ''u'') (Some (py ''W/\"u|v1\"-sum''))
       = (Inr (Response 304), world0 fs_empty)
   \<and> preview rt0 env0 config0 (world0 fs_empty) (py ''u'') (Some (py ''W/\"u|v1\"-prev''))
       = (Inr (Response 304), world0 fs_empty)"
proof -
  have e: "etag_for rt0 (py ''u'') = py ''W/\"u|v1\"''"
    by (simp add: etag_for_def rt0_def PARSER_VERSION_def py_def)
  have m: "Some (py ''W/\"u|v1\"-meta'') = Some (etag_for rt0 (py ''u'') @ py ''-meta'')"
    and s: "Some (py ''W/\"u|v1\"-sum'') = Some (etag_for rt0 (py ''u'') @ py ''-sum'')"
    and p: "Some (py ''W/\"u|v1\"-prev'') = Some (etag_for rt0 (py ''u'') @ py ''-prev'')"
    unfolding e by (simp_all add: py_def)
  from projection_endpoints_not_modified [where U = rt0 and u = "py ''u''" and E = env0
      and C = config0 and w = "world0 fs_empty" and inm = "Some (py ''W/\"u|v1\"-meta'')"]
    projection_endpoints_not_modified [where U = rt0 and u = "py ''u''" and E = env0
      and C = config0 and w = "world0 fs_empty" and inm = "Some (py ''W/\"u|v1\"-sum'')"]
    projection_endpoints_not_modified [where U = rt0 and u = "py ''u''" and E = env0
      and C = config0 and w = "world0 fs_empty" and inm = "Some (py ''W/\"u|v1\"-prev'')"]
  show ?thesis using m s p
    unfolding e by (simp add: world0_def fs_empty_def py_def)
qed

end
